theory Spec2Isabelle
  imports Complex_Main
begin

section \<open>JavaScript values, objects and the store\<close>

text \<open>
  The reporter of \<^verbatim>\<open>telemetryReporter.ts\<close> builds its events by mutating plain objects with
  \<^verbatim>\<open>Object.assign\<close>, and several of those objects are handed in by the caller. The model
  therefore keeps every object in a store and passes references around, exactly as the
  TypeScript does. The TypeScript types are erased at run time, so the enrichment methods
  are modelled over arbitrary values.

  Numbers are IEEE doubles in the source. The code only tests them for truthiness and
  stores them, so a number is a real, an infinity or NaN; the two zeros are not told apart
  (both are falsy).
\<close>

datatype jsnum = Fin real | PosInf | NegInf | NaN

datatype jsval =
    JUndefined
  | JNull
  | JBool bool
  | JNum jsnum
  | JStr string
  | JObj nat      \<comment> \<open>reference to an ordinary object (arrays included)\<close>
  | JFun nat      \<comment> \<open>reference to a function object\<close>

text \<open>An object is the map from its own enumerable string keys to their values.\<close>

type_synonym jsobj = "string \<rightharpoonup> jsval"

fun typeof :: "jsval \<Rightarrow> string" where
  "typeof JUndefined = ''undefined''"
| "typeof JNull = ''object''"
| "typeof (JBool b) = ''boolean''"
| "typeof (JNum n) = ''number''"
| "typeof (JStr s) = ''string''"
| "typeof (JObj a) = ''object''"
| "typeof (JFun a) = ''function''"

fun truthy_num :: "jsnum \<Rightarrow> bool" where
  "truthy_num (Fin r) = (r \<noteq> 0)"
| "truthy_num PosInf = True"
| "truthy_num NegInf = True"
| "truthy_num NaN = False"

fun truthy :: "jsval \<Rightarrow> bool" where
  "truthy JUndefined = False"
| "truthy JNull = False"
| "truthy (JBool b) = b"
| "truthy (JNum n) = truthy_num n"
| "truthy (JStr s) = (s \<noteq> [])"
| "truthy (JObj a) = True"
| "truthy (JFun a) = True"

text \<open>Exceptions raised by the language itself.\<close>

datatype exn = TypeError string | SyntaxError string

text \<open>
  What the external transport may throw: an \<^verbatim>\<open>Error\<close> with its message, or any other value,
  given by the text it converts to inside a template string.
\<close>

datatype thrown = ThrownError string | ThrownOther string

fun thrown_text :: "thrown \<Rightarrow> string" where
  "thrown_text (ThrownError m) = m"
| "thrown_text (ThrownOther s) = s"

text \<open>
  The transport (\<^verbatim>\<open>VsCodeTelemetryReporter\<close>) is an external collaborator. All the reporter
  needs to know of a call to \<^verbatim>\<open>sendTelemetryEvent\<close> is whether it throws; the transport is
  taken to read the two maps it is handed and not to write to them.
\<close>

type_synonym transport = "string \<Rightarrow> jsobj \<Rightarrow> jsobj \<Rightarrow> thrown option"

text \<open>
  The observable world: the store of objects, the next unused address, the lines written
  with \<^verbatim>\<open>console.error\<close>, and every call the transport received (event name and the
  contents of the two maps at the time of the call).
\<close>

record world =
  heap :: "nat \<Rightarrow> jsobj"
  next_free :: nat
  console :: "string list"
  transport_calls :: "(string \<times> jsobj \<times> jsobj) list"

definition alloc :: "jsobj \<Rightarrow> world \<Rightarrow> nat \<times> world" where
  "alloc obj w =
     (next_free w, w\<lparr>heap := (heap w)(next_free w := obj), next_free := Suc (next_free w)\<rparr>)"

text \<open>\<^verbatim>\<open>Object.assign(target, source)\<close>: every own key of the source is written into the target.\<close>

definition object_assign :: "nat \<Rightarrow> jsobj \<Rightarrow> world \<Rightarrow> world" where
  "object_assign a src w = w\<lparr>heap := (heap w)(a := heap w a ++ src)\<rparr>"

text \<open>Reading a property that the object does not have yields \<^verbatim>\<open>undefined\<close>.\<close>

definition get_prop :: "jsobj \<Rightarrow> string \<Rightarrow> jsval" where
  "get_prop obj k = (case obj k of None \<Rightarrow> JUndefined | Some v \<Rightarrow> v)"

definition console_error :: "string \<Rightarrow> world \<Rightarrow> world" where
  "console_error line w = w\<lparr>console := console w @ [line]\<rparr>"

section \<open>Module-level common fields\<close>

text \<open>
  What the module reads from its host when it is loaded: the environment variable
  \<^verbatim>\<open>USERDNSDOMAIN\<close>, and the value of \<^verbatim>\<open>azdata?.version\<close> when \<^verbatim>\<open>require('azdata')\<close>
  succeeds (\<open>None\<close> when it throws).
\<close>

record host =
  USERDNSDOMAIN :: "string option"
  azdata_version :: "jsval option"

definition msftInternalDomains :: "string list" where
  "msftInternalDomains =
    [''redmond.corp.microsoft.com'',
     ''northamerica.corp.microsoft.com'',
     ''fareast.corp.microsoft.com'',
     ''ntdev.corp.microsoft.com'',
     ''wingroup.corp.microsoft.com'',
     ''southpacific.corp.microsoft.com'',
     ''wingroup.windeploy.ntdev.microsoft.com'',
     ''ddnet.microsoft.com'',
     ''europe.corp.microsoft.com'']"

text \<open>\<^verbatim>\<open>toLowerCase\<close> on the ASCII letters; other characters are left as they are.\<close>

definition toLowerCase_char :: "char \<Rightarrow> char" where
  "toLowerCase_char c =
     (let n = (of_char c :: nat)
      in if 65 \<le> n \<and> n \<le> 90 then char_of (n + 32) else c)"

definition toLowerCase :: "string \<Rightarrow> string" where
  "toLowerCase s = map toLowerCase_char s"

definition isMsftInternal :: "host \<Rightarrow> bool" where
  "isMsftInternal h =
     (case USERDNSDOMAIN h of
        None \<Rightarrow> False
      | Some userDnsDomain \<Rightarrow>
          if userDnsDomain = [] then False
          else (let domain = toLowerCase userDnsDomain
                in list_ex (\<lambda>msftDomain. domain = msftDomain) msftInternalDomains))"

definition commonMeasurements :: "host \<Rightarrow> jsobj" where
  "commonMeasurements h =
     [''common.msftInternal'' \<mapsto> JNum (Fin (if isMsftInternal h then 1 else 0))]"

definition commonProperties :: "host \<Rightarrow> jsobj" where
  "commonProperties h =
     (case azdata_version h of
        None \<Rightarrow> Map.empty
      | Some v \<Rightarrow> [''common.adsversion'' \<mapsto> v])"

section \<open>TelemetryEventImpl\<close>

text \<open>
  An event holds the transport reference of its reporter (absent when the construction of
  the transport failed), its name and references to its two maps. The fields are never
  reassigned after the constructor; only the referenced objects change.
\<close>

record telemetryEvent =
  ev_reporter :: "transport option"
  eventName :: string
  properties :: nat
  measurements :: nat

text \<open>
  The constructor. \<^verbatim>\<open>properties || {}\<close> keeps the reference it was given and allocates a
  fresh object only when none was passed; the common fields are then assigned into it.
\<close>

definition TelemetryEventImpl_new ::
  "host \<Rightarrow> transport option \<Rightarrow> string \<Rightarrow> nat option \<Rightarrow> nat option \<Rightarrow> world
     \<Rightarrow> telemetryEvent \<times> world" where
  "TelemetryEventImpl_new h rep name props meas w =
     (let (p, w1) = (case props of Some a \<Rightarrow> (a, w) | None \<Rightarrow> alloc Map.empty w);
          w2 = object_assign p (commonProperties h) w1;
          (m, w3) = (case meas of Some a \<Rightarrow> (a, w2) | None \<Rightarrow> alloc Map.empty w2);
          w4 = object_assign m (commonMeasurements h) w3
      in (\<lparr>ev_reporter = rep, eventName = name, properties = p, measurements = m\<rparr>, w4))"

definition send :: "telemetryEvent \<Rightarrow> world \<Rightarrow> world" where
  "send ev w =
     (case ev_reporter ev of
        None \<Rightarrow> w
      | Some t \<Rightarrow>
          (let ps = heap w (properties ev);
               ms = heap w (measurements ev);
               w1 = w\<lparr>transport_calls := transport_calls w @ [(eventName ev, ps, ms)]\<rparr>
           in case t (eventName ev) ps ms of
                None \<Rightarrow> w1
              | Some e \<Rightarrow>
                  console_error
                    (''Error sending '' @ eventName ev @ '' event '' @ thrown_text e) w1))"

definition withAdditionalProperties :: "telemetryEvent \<Rightarrow> nat \<Rightarrow> world \<Rightarrow> telemetryEvent \<times> world" where
  "withAdditionalProperties ev additionalProperties w =
     (ev, object_assign (properties ev) (heap w additionalProperties) w)"

definition withAdditionalMeasurements :: "telemetryEvent \<Rightarrow> nat \<Rightarrow> world \<Rightarrow> telemetryEvent \<times> world" where
  "withAdditionalMeasurements ev additionalMeasurements w =
     (ev, object_assign (measurements ev) (heap w additionalMeasurements) w)"

text \<open>
  \<^verbatim>\<open>withConnectionInfo\<close>. The guard is \<^verbatim>\<open>typeof connectionInfo === 'object'\<close>; reading a
  property of \<^verbatim>\<open>null\<close> throws a TypeError, reading one of an object yields its value or
  \<^verbatim>\<open>undefined\<close>.
\<close>

definition withConnectionInfo ::
  "telemetryEvent \<Rightarrow> jsval \<Rightarrow> world \<Rightarrow> exn + (telemetryEvent \<times> world)" where
  "withConnectionInfo ev connectionInfo w =
     (if typeof connectionInfo = ''object'' then
        (case connectionInfo of
           JObj a \<Rightarrow>
             Inr (ev, object_assign (properties ev)
                        [''authenticationType'' \<mapsto> get_prop (heap w a) ''authenticationType'',
                         ''providerName'' \<mapsto> get_prop (heap w a) ''providerName''] w)
         | _ \<Rightarrow> Inl (TypeError ''Cannot read properties of null (reading 'authenticationType')''))
      else
        Inr (ev, console_error
                   (''AdsTelemetryReporter received invalid ConnectionInfo object of type ''
                      @ typeof connectionInfo) w))"

text \<open>\<^verbatim>\<open>a ?? b\<close>: the left operand unless it is \<^verbatim>\<open>null\<close> or \<^verbatim>\<open>undefined\<close>.\<close>

definition nullish_or :: "jsval \<Rightarrow> jsval \<Rightarrow> jsval" where
  "nullish_or a b = (if a = JUndefined \<or> a = JNull then b else a)"

definition withServerInfo ::
  "telemetryEvent \<Rightarrow> jsval \<Rightarrow> world \<Rightarrow> exn + (telemetryEvent \<times> world)" where
  "withServerInfo ev serverInfo w =
     (if typeof serverInfo = ''object'' then
        (case serverInfo of
           JObj a \<Rightarrow>
             (let info = heap w a in
              Inr (ev, object_assign (properties ev)
                        [''connectionType'' \<mapsto>
                           (if get_prop info ''isCloud'' \<noteq> JUndefined
                            then (if truthy (get_prop info ''isCloud'')
                                  then JStr ''Azure'' else JStr ''Standalone'')
                            else JStr ''''),
                         ''serverVersion'' \<mapsto> nullish_or (get_prop info ''serverVersion'') (JStr ''''),
                         ''serverEdition'' \<mapsto> nullish_or (get_prop info ''serverEdition'') (JStr ''''),
                         ''serverEngineEdition'' \<mapsto>
                            nullish_or (get_prop info ''engineEditionId'') (JStr '''')] w))
         | _ \<Rightarrow> Inl (TypeError ''Cannot read properties of null (reading 'isCloud')''))
      else
        Inr (ev, console_error
                   (''AdsTelemetryReporter received invalid ServerInfo object of type ''
                      @ typeof serverInfo) w))"

section \<open>TelemetryReporter\<close>

text \<open>
  The reporter holds the transport, or nothing when constructing the transport threw.
  The constructor of the transport is external: it either throws or yields a transport.
  \<^verbatim>\<open>dispose\<close> only awaits the \<^verbatim>\<open>dispose\<close> of the transport and has no part in building events;
  it is left out.
\<close>

record reporter =
  telemetryReporter :: "transport option"

definition TelemetryReporter_new ::
  "(string \<Rightarrow> string \<Rightarrow> string \<Rightarrow> thrown + transport) \<Rightarrow> string \<Rightarrow> string \<Rightarrow> string \<Rightarrow> world
     \<Rightarrow> reporter \<times> world" where
  "TelemetryReporter_new VsCodeTelemetryReporter_new extensionId extensionVersion key w =
     (case VsCodeTelemetryReporter_new extensionId extensionVersion key of
        Inr t \<Rightarrow> (\<lparr>telemetryReporter = Some t\<rparr>, w)
      | Inl e \<Rightarrow>
          (\<lparr>telemetryReporter = None\<rparr>,
           console_error
             (''Error initializing TelemetryReporter for '' @ [CHR 0x27] @ extensionId @ [CHR 0x27]
                @ ''. '' @ thrown_text e)
             w))"

text \<open>A parameter with a default value takes it when the argument is omitted.\<close>

definition or_default :: "string option \<Rightarrow> string" where
  "or_default arg = (case arg of None \<Rightarrow> [] | Some s \<Rightarrow> s)"

definition createViewEvent :: "host \<Rightarrow> reporter \<Rightarrow> string \<Rightarrow> world \<Rightarrow> telemetryEvent \<times> world" where
  "createViewEvent h r view w =
     (let (p, w1) = alloc [''view'' \<mapsto> JStr view] w
      in TelemetryEventImpl_new h (telemetryReporter r) ''view'' (Some p) None w1)"

definition sendViewEvent :: "host \<Rightarrow> reporter \<Rightarrow> string \<Rightarrow> world \<Rightarrow> world" where
  "sendViewEvent h r view w = (let (ev, w1) = createViewEvent h r view w in send ev w1)"

definition createActionEvent ::
  "host \<Rightarrow> reporter \<Rightarrow> string \<Rightarrow> string \<Rightarrow> string option \<Rightarrow> string option \<Rightarrow> jsnum option \<Rightarrow> world
     \<Rightarrow> telemetryEvent \<times> world" where
  "createActionEvent h r view action target source durationInMs w =
     (let (m, w1) =
            alloc (case durationInMs of
                     None \<Rightarrow> Map.empty
                   | Some d \<Rightarrow> if truthy_num d then [''durationInMs'' \<mapsto> JNum d] else Map.empty) w;
          (p, w2) =
            alloc [''view'' \<mapsto> JStr view,
                   ''action'' \<mapsto> JStr action,
                   ''target'' \<mapsto> JStr (or_default target),
                   ''source'' \<mapsto> JStr (or_default source)] w1
      in TelemetryEventImpl_new h (telemetryReporter r) ''action'' (Some p) (Some m) w2)"

definition sendActionEvent ::
  "host \<Rightarrow> reporter \<Rightarrow> string \<Rightarrow> string \<Rightarrow> string option \<Rightarrow> string option \<Rightarrow> jsnum option \<Rightarrow> world
     \<Rightarrow> world" where
  "sendActionEvent h r view action target source durationInMs w =
     (let (ev, w1) = createActionEvent h r view action target source durationInMs w
      in send ev w1)"

text \<open>The measurements object of a metrics event is the caller's own object.\<close>

definition createMetricsEvent ::
  "host \<Rightarrow> reporter \<Rightarrow> nat \<Rightarrow> string option \<Rightarrow> world \<Rightarrow> telemetryEvent \<times> world" where
  "createMetricsEvent h r measurements_arg groupName w =
     (let (p, w1) = alloc [''groupName'' \<mapsto> JStr (or_default groupName)] w
      in TelemetryEventImpl_new h (telemetryReporter r) ''metrics'' (Some p) (Some measurements_arg) w1)"

definition sendMetricsEvent :: "host \<Rightarrow> reporter \<Rightarrow> nat \<Rightarrow> string option \<Rightarrow> world \<Rightarrow> world" where
  "sendMetricsEvent h r measurements_arg groupName w =
     (let (ev, w1) = createMetricsEvent h r measurements_arg groupName w in send ev w1)"

definition createErrorEvent ::
  "host \<Rightarrow> reporter \<Rightarrow> string \<Rightarrow> string \<Rightarrow> string option \<Rightarrow> string option \<Rightarrow> world
     \<Rightarrow> telemetryEvent \<times> world" where
  "createErrorEvent h r view name errorCode errorType w =
     (let (p, w1) =
            alloc [''view'' \<mapsto> JStr view,
                   ''name'' \<mapsto> JStr name,
                   ''errorCode'' \<mapsto> JStr (or_default errorCode),
                   ''errorType'' \<mapsto> JStr (or_default errorType)] w
      in TelemetryEventImpl_new h (telemetryReporter r) ''error'' (Some p) None w1)"

definition sendErrorEvent ::
  "host \<Rightarrow> reporter \<Rightarrow> string \<Rightarrow> string \<Rightarrow> string option \<Rightarrow> string option \<Rightarrow> world \<Rightarrow> world" where
  "sendErrorEvent h r view name errorCode errorType w =
     (let (ev, w1) = createErrorEvent h r view name errorCode errorType w in send ev w1)"

text \<open>A custom event takes the caller's two objects as they are, when they are given.\<close>

definition createTelemetryEvent ::
  "host \<Rightarrow> reporter \<Rightarrow> string \<Rightarrow> nat option \<Rightarrow> nat option \<Rightarrow> world \<Rightarrow> telemetryEvent \<times> world" where
  "createTelemetryEvent h r name props meas w =
     TelemetryEventImpl_new h (telemetryReporter r) name props meas w"

definition sendTelemetryEvent ::
  "host \<Rightarrow> reporter \<Rightarrow> string \<Rightarrow> nat option \<Rightarrow> nat option \<Rightarrow> world \<Rightarrow> world" where
  "sendTelemetryEvent h r name props meas w =
     (let (ev, w1) = createTelemetryEvent h r name props meas w in send ev w1)"

section \<open>TimedAction\<close>

text \<open>
  The field initialisers allocate the two accumulators and read the clock; the clock is a
  parameter (milliseconds, as \<^verbatim>\<open>Date.now()\<close> returns them).
\<close>

record timedAction =
  ta_reporter :: reporter
  ta_view :: string
  ta_action :: string
  ta_target :: string
  ta_source :: string
  ta_properties :: nat
  ta_measures :: nat
  ta_start :: int

definition TimedAction_new ::
  "reporter \<Rightarrow> string \<Rightarrow> string \<Rightarrow> string option \<Rightarrow> string option \<Rightarrow> int \<Rightarrow> world
     \<Rightarrow> timedAction \<times> world" where
  "TimedAction_new r view action target source now w =
     (let (p, w1) = alloc Map.empty w;
          (m, w2) = alloc Map.empty w1
      in (\<lparr>ta_reporter = r, ta_view = view, ta_action = action,
            ta_target = or_default target, ta_source = or_default source,
            ta_properties = p, ta_measures = m, ta_start = now\<rparr>, w2))"

definition createTimedAction ::
  "reporter \<Rightarrow> string \<Rightarrow> string \<Rightarrow> string option \<Rightarrow> string option \<Rightarrow> int \<Rightarrow> world
     \<Rightarrow> timedAction \<times> world" where
  "createTimedAction r view action target source now w =
     TimedAction_new r view action target source now w"

definition TimedAction_withAdditionalProperties ::
  "timedAction \<Rightarrow> nat \<Rightarrow> world \<Rightarrow> timedAction \<times> world" where
  "TimedAction_withAdditionalProperties ta additionalProperties w =
     (ta, object_assign (ta_properties ta) (heap w additionalProperties) w)"

definition TimedAction_withAdditionalMeasures ::
  "timedAction \<Rightarrow> nat \<Rightarrow> world \<Rightarrow> timedAction \<times> world" where
  "TimedAction_withAdditionalMeasures ta additionalMeasurements w =
     (ta, object_assign (ta_measures ta) (heap w additionalMeasurements) w)"

text \<open>
  \<^verbatim>\<open>send\<close> passes \<^verbatim>\<open>this.source\<close> in the position of the parameter \<^verbatim>\<open>target\<close> of
  \<^verbatim>\<open>createActionEvent\<close> and \<^verbatim>\<open>this.target\<close> in the position of \<^verbatim>\<open>source\<close>, as the source does.
\<close>

definition TimedAction_send :: "host \<Rightarrow> timedAction \<Rightarrow> int \<Rightarrow> world \<Rightarrow> world" where
  "TimedAction_send h ta now w =
     (let (ev, w1) =
            createActionEvent h (ta_reporter ta) (ta_view ta) (ta_action ta)
              (Some (ta_source ta)) (Some (ta_target ta))
              (Some (Fin (real_of_int (now - ta_start ta)))) w;
          (ev2, w2) = withAdditionalProperties ev (ta_properties ta) w1;
          (ev3, w3) = withAdditionalMeasurements ev2 (ta_measures ta) w2
      in send ev3 w3)"

section \<open>Regular expressions\<close>

text \<open>
  \<^verbatim>\<open>createErrorEvent2\<close> builds \<^verbatim>\<open>new RegExp(error.message, 'g')\<close> and calls \<^verbatim>\<open>String.replace\<close>
  with it. Both belong to the language, not to the repository. The model covers the
  patterns written with ordinary characters, \<^verbatim>\<open>.\<close>, groups \<^verbatim>\<open>( )\<close>, alternation \<^verbatim>\<open>|\<close> and the
  quantifiers \<^verbatim>\<open>* + ?\<close> (greedy, or lazy with a following \<^verbatim>\<open>?\<close>). A pattern that uses
  anything else (a backslash, \<^verbatim>\<open>^\<close>, \<^verbatim>\<open>$\<close>, brackets, braces, or a group that starts with
  \<^verbatim>\<open>(?\<close>) is outside the model, and every operation that meets one yields \<open>NotModelled\<close>
  instead of a result. Characters are single code units; \<^verbatim>\<open>.\<close> matches every character but
  a line terminator. A SyntaxError carries the kind of the error; the wording of its message
  is the engine's own.
\<close>

datatype 'a outcome = Returns 'a | Throws exn | NotModelled

datatype regex =
    REmpty
  | RChar char
  | RAny
  | RSeq regex regex
  | RAlt regex regex
  | RStar bool regex      \<comment> \<open>the flag: greedy\<close>
  | ROpt bool regex

definition is_line_terminator :: "char \<Rightarrow> bool" where
  "is_line_terminator c = (c = CHR 0x0A \<or> c = CHR 0x0D)"

text \<open>
  The backtracking matcher: \<open>run r s\<close> lists what is left of \<open>s\<close> after each way \<open>r\<close> can
  match a prefix of it, in the order in which backtracking tries them; the first is the
  match the engine reports. An iteration of a quantifier that consumes nothing is
  rejected, as the language prescribes.
\<close>

function run :: "regex \<Rightarrow> string \<Rightarrow> string list" where
  "run REmpty s = [s]"
| "run (RChar c) s = (case s of [] \<Rightarrow> [] | x # xs \<Rightarrow> if x = c then [xs] else [])"
| "run RAny s = (case s of [] \<Rightarrow> [] | x # xs \<Rightarrow> if is_line_terminator x then [] else [xs])"
| "run (RSeq a b) s = concat (map (run b) (run a s))"
| "run (RAlt a b) s = run a s @ run b s"
| "run (RStar greedy a) s =
     (let more = concat (map (\<lambda>t. if length t < length s then run (RStar greedy a) t else [])
                           (run a s))
      in if greedy then more @ [s] else s # more)"
| "run (ROpt greedy a) s =
     (let once = filter (\<lambda>t. length t < length s) (run a s)
      in if greedy then once @ [s] else s # once)"
  by pat_completeness auto
termination
  by (relation "measures [\<lambda>(r, s). size r, \<lambda>(r, s). length s]") auto

text \<open>
  The parser reads the pattern from left to right and reports the first error it meets.
  A frame holds the alternatives of the group being read that are complete, and the terms
  of the alternative being read (newest first); a term is an atom with its quantifier.
\<close>

datatype quantifier = QStar | QPlus | QOpt

record item =
  atom :: regex
  quant :: "(quantifier \<times> bool) option"

definition item_regex :: "item \<Rightarrow> regex" where
  "item_regex i =
     (case quant i of
        None \<Rightarrow> atom i
      | Some (QStar, greedy) \<Rightarrow> RStar greedy (atom i)
      | Some (QPlus, greedy) \<Rightarrow> RSeq (atom i) (RStar greedy (atom i))
      | Some (QOpt, greedy) \<Rightarrow> ROpt greedy (atom i))"

fun seq_regex :: "item list \<Rightarrow> regex" where
  "seq_regex [] = REmpty"
| "seq_regex [i] = item_regex i"
| "seq_regex (i # is) = RSeq (seq_regex is) (item_regex i)"

fun alt_regex :: "regex list \<Rightarrow> regex" where
  "alt_regex [] = REmpty"
| "alt_regex [r] = r"
| "alt_regex (r # rs) = RAlt (alt_regex rs) r"

record frame =
  alts :: "regex list"
  cur :: "item list"

definition close_frame :: "frame \<Rightarrow> regex" where
  "close_frame f = alt_regex (seq_regex (cur f) # alts f)"

definition empty_frame :: frame where
  "empty_frame = \<lparr>alts = [], cur = []\<rparr>"

definition push_atom :: "regex \<Rightarrow> frame \<Rightarrow> frame" where
  "push_atom r f = f\<lparr>cur := \<lparr>atom = r, quant = None\<rparr> # cur f\<rparr>"

definition quantify :: "quantifier \<Rightarrow> frame \<Rightarrow> exn + frame" where
  "quantify q f =
     (case cur f of
        [] \<Rightarrow> Inl (SyntaxError ''Nothing to repeat'')
      | i # is \<Rightarrow>
          (case quant i of
             None \<Rightarrow> Inr (f\<lparr>cur := i\<lparr>quant := Some (q, True)\<rparr> # is\<rparr>)
           | Some (k, greedy) \<Rightarrow>
               if q = QOpt \<and> greedy then Inr (f\<lparr>cur := i\<lparr>quant := Some (k, False)\<rparr> # is\<rparr>)
               else Inl (SyntaxError ''Nothing to repeat'')))"

fun parse :: "frame \<Rightarrow> frame list \<Rightarrow> string \<Rightarrow> exn + regex" where
  "parse f stack [] =
     (case stack of
        [] \<Rightarrow> Inr (close_frame f)
      | _ # _ \<Rightarrow> Inl (SyntaxError ''Unterminated group''))"
| "parse f stack (c # cs) =
     (if c = CHR ''('' then parse empty_frame (f # stack) cs
      else if c = CHR '')'' then
        (case stack of
           [] \<Rightarrow> Inl (SyntaxError ''Unmatched closing parenthesis'')
         | g # stack' \<Rightarrow> parse (push_atom (close_frame f) g) stack' cs)
      else if c = CHR ''|'' then
        parse \<lparr>alts = seq_regex (cur f) # alts f, cur = []\<rparr> stack cs
      else if c = CHR ''*'' \<or> c = CHR ''+'' \<or> c = CHR ''?'' then
        (case quantify (if c = CHR ''*'' then QStar else if c = CHR ''+'' then QPlus else QOpt) f of
           Inl e \<Rightarrow> Inl e
         | Inr f' \<Rightarrow> parse f' stack cs)
      else if c = CHR ''.'' then parse (push_atom RAny f) stack cs
      else parse (push_atom (RChar c) f) stack cs)"

text \<open>The patterns the model covers.\<close>

fun has_group_modifier :: "string \<Rightarrow> bool" where
  "has_group_modifier (a # b # cs) =
     ((a = CHR ''('' \<and> b = CHR ''?'') \<or> has_group_modifier (b # cs))"
| "has_group_modifier _ = False"

definition modelled_pattern :: "string \<Rightarrow> bool" where
  "modelled_pattern p =
     (\<not> list_ex (\<lambda>c. List.member
                        [CHR 0x5C, CHR ''^'', CHR ''$'', CHR ''['', CHR '']'', CHR ''{'', CHR ''}''] c) p
      \<and> \<not> has_group_modifier p)"

text \<open>\<^verbatim>\<open>new RegExp(pattern, 'g')\<close>.\<close>

definition RegExp_new :: "string \<Rightarrow> regex outcome" where
  "RegExp_new pattern =
     (if modelled_pattern pattern then
        (case parse empty_frame [] pattern of Inl e \<Rightarrow> Throws e | Inr r \<Rightarrow> Returns r)
      else NotModelled)"

text \<open>
  \<^verbatim>\<open>s.replace(regex, replacement)\<close> for a global regex and a replacement without \<^verbatim>\<open>$\<close>:
  matches are looked for from left to right; after an empty match the search moves one
  character on.
\<close>

function String_replace :: "regex \<Rightarrow> string \<Rightarrow> string \<Rightarrow> string" where
  "String_replace r replacement s =
     (case run r s of
        [] \<Rightarrow> (case s of [] \<Rightarrow> [] | c # cs \<Rightarrow> c # String_replace r replacement cs)
      | t # _ \<Rightarrow>
          if length t < length s then replacement @ String_replace r replacement t
          else (case s of
                  [] \<Rightarrow> replacement
                | c # cs \<Rightarrow> replacement @ c # String_replace r replacement cs))"
  by pat_completeness auto
termination
  by (relation "measure (\<lambda>(r, replacement, s). length s)") auto

declare String_replace.simps [simp del]

section \<open>Error events with an error object\<close>

text \<open>
  The argument \<^verbatim>\<open>error\<close> of \<^verbatim>\<open>createErrorEvent2\<close>: an instance of \<^verbatim>\<open>Error\<close> with its message and
  its stack (absent when \<^verbatim>\<open>undefined\<close>), or \<^verbatim>\<open>null\<close>/\<^verbatim>\<open>undefined\<close>, or any other value, given by
  the string its \<^verbatim>\<open>toString()\<close> returns.
\<close>

datatype error_arg =
    ErrorObject string "string option"
  | Nullish
  | OtherValue string

definition set_prop :: "nat \<Rightarrow> string \<Rightarrow> jsval \<Rightarrow> world \<Rightarrow> world" where
  "set_prop a k v w = w\<lparr>heap := (heap w)(a := (heap w a)(k \<mapsto> v))\<rparr>"

definition redaction_marker :: string where
  "redaction_marker = ''<REDACTED: error-message>''"

definition createErrorEvent2 ::
  "host \<Rightarrow> reporter \<Rightarrow> string \<Rightarrow> string \<Rightarrow> error_arg \<Rightarrow> bool \<Rightarrow> string option \<Rightarrow> string option
     \<Rightarrow> world \<Rightarrow> (telemetryEvent \<times> world) outcome" where
  "createErrorEvent2 h r view name error includeMessage errorCode errorType w =
     (let (props, w1) =
            alloc [''view'' \<mapsto> JStr view,
                   ''name'' \<mapsto> JStr name,
                   ''errorCode'' \<mapsto> JStr (or_default errorCode),
                   ''errorType'' \<mapsto> JStr (or_default errorType)] w
      in case error of
           ErrorObject message stack0 \<Rightarrow>
             (let w2 = set_prop props ''message''
                         (JStr (if includeMessage then message else [])) w1;
                  stack = (case stack0 of None \<Rightarrow> [] | Some s \<Rightarrow> s)
              in if \<not> includeMessage \<and> message \<noteq> [] then
                   (case RegExp_new message of
                      NotModelled \<Rightarrow> NotModelled
                    | Throws e \<Rightarrow> Throws e
                    | Returns regex \<Rightarrow>
                        Returns
                          (TelemetryEventImpl_new h (telemetryReporter r) ''error'' (Some props) None
                             (set_prop props ''stack''
                                (JStr (String_replace regex redaction_marker stack)) w2)))
                 else
                   Returns
                     (TelemetryEventImpl_new h (telemetryReporter r) ''error'' (Some props) None
                        (set_prop props ''stack'' (JStr stack) w2)))
         | Nullish \<Rightarrow>
             Returns
               (TelemetryEventImpl_new h (telemetryReporter r) ''error'' (Some props) None
                  (set_prop props ''stack'' (JStr [])
                     (set_prop props ''message''
                        (if includeMessage then JUndefined else JStr []) w1)))
         | OtherValue text \<Rightarrow>
             Returns
               (TelemetryEventImpl_new h (telemetryReporter r) ''error'' (Some props) None
                  (set_prop props ''stack'' (JStr [])
                     (set_prop props ''message''
                        (if includeMessage then JStr text else JStr []) w1))))"

definition sendErrorEvent2 ::
  "host \<Rightarrow> reporter \<Rightarrow> string \<Rightarrow> string \<Rightarrow> error_arg \<Rightarrow> bool \<Rightarrow> string option \<Rightarrow> string option
     \<Rightarrow> world \<Rightarrow> world outcome" where
  "sendErrorEvent2 h r view name error includeMessage errorCode errorType w =
     (case createErrorEvent2 h r view name error includeMessage errorCode errorType w of
        Returns (ev, w1) \<Rightarrow> Returns (send ev w1)
      | Throws e \<Rightarrow> Throws e
      | NotModelled \<Rightarrow> NotModelled)"

section \<open>The public surface\<close>

text \<open>
  The six factory methods of the reporter as one function of the call made, and the
  methods of an event as one function of the call made, so that a statement about every
  method, or about every sequence of calls, is a statement about these.
\<close>

datatype factory_call =
    CreateViewEvent string
  | CreateActionEvent string string "string option" "string option" "jsnum option"
  | CreateMetricsEvent nat "string option"
  | CreateErrorEvent string string "string option" "string option"
  | CreateErrorEvent2 string string error_arg bool "string option" "string option"
  | CreateTelemetryEvent string "nat option" "nat option"

fun create :: "host \<Rightarrow> reporter \<Rightarrow> factory_call \<Rightarrow> world \<Rightarrow> (telemetryEvent \<times> world) outcome" where
  "create h r (CreateViewEvent view) w = Returns (createViewEvent h r view w)"
| "create h r (CreateActionEvent view action target source durationInMs) w =
     Returns (createActionEvent h r view action target source durationInMs w)"
| "create h r (CreateMetricsEvent measurements_arg groupName) w =
     Returns (createMetricsEvent h r measurements_arg groupName w)"
| "create h r (CreateErrorEvent view name errorCode errorType) w =
     Returns (createErrorEvent h r view name errorCode errorType w)"
| "create h r (CreateErrorEvent2 view name error includeMessage errorCode errorType) w =
     createErrorEvent2 h r view name error includeMessage errorCode errorType w"
| "create h r (CreateTelemetryEvent name props meas) w =
     Returns (createTelemetryEvent h r name props meas w)"

datatype event_call =
    WithAdditionalProperties nat
  | WithAdditionalMeasurements nat
  | WithConnectionInfo jsval
  | WithServerInfo jsval
  | Send

fun event_step :: "telemetryEvent \<Rightarrow> event_call \<Rightarrow> world \<Rightarrow> exn + world" where
  "event_step ev (WithAdditionalProperties a) w = Inr (snd (withAdditionalProperties ev a w))"
| "event_step ev (WithAdditionalMeasurements a) w = Inr (snd (withAdditionalMeasurements ev a w))"
| "event_step ev (WithConnectionInfo v) w = map_sum id snd (withConnectionInfo ev v w)"
| "event_step ev (WithServerInfo v) w = map_sum id snd (withServerInfo ev v w)"
| "event_step ev Send w = Inr (send ev w)"

text \<open>
  A sequence of calls on one event. An exception ends the sequence: the result is the
  world at that point, with the exception.
\<close>

fun event_calls :: "telemetryEvent \<Rightarrow> event_call list \<Rightarrow> world \<Rightarrow> exn option \<times> world" where
  "event_calls ev [] w = (None, w)"
| "event_calls ev (c # cs) w =
     (case event_step ev c w of
        Inl e \<Rightarrow> (Some e, w)
      | Inr w' \<Rightarrow> event_calls ev cs w')"

text \<open>
  A reference handed to a factory method names an object that exists: its address has been
  allocated. (A reference to an object that does not exist cannot be written in the source
  language.)
\<close>

definition allocated :: "world \<Rightarrow> nat option \<Rightarrow> bool" where
  "allocated w ref = (case ref of None \<Rightarrow> True | Some a \<Rightarrow> a < next_free w)"

fun call_allocated :: "world \<Rightarrow> factory_call \<Rightarrow> bool" where
  "call_allocated w (CreateMetricsEvent measurements_arg groupName) =
     allocated w (Some measurements_arg)"
| "call_allocated w (CreateTelemetryEvent name props meas) =
     (allocated w props \<and> allocated w meas)"
| "call_allocated w _ = True"

section \<open>Concrete inputs\<close>

text \<open>Small worlds, hosts and collaborators on which the theorems below are exercised.\<close>

definition empty_world :: world where
  "empty_world = \<lparr>heap = (\<lambda>a. Map.empty), next_free = 0, console = [], transport_calls = []\<rparr>"

definition example_host :: host where
  "example_host =
     \<lparr>USERDNSDOMAIN = Some ''REDMOND.CORP.MICROSOFT.COM'', azdata_version = Some (JStr ''1.44.0'')\<rparr>"

definition accepting_transport :: transport where
  "accepting_transport name ps ms = None"

definition active_reporter :: reporter where
  "active_reporter = \<lparr>telemetryReporter = Some accepting_transport\<rparr>"

definition failing_constructor :: "string \<Rightarrow> string \<Rightarrow> string \<Rightarrow> thrown + transport" where
  "failing_constructor extensionId extensionVersion key = Inl (ThrownError ''invalid key'')"

text \<open>What the transport received last: the name, and a property or measurement of it.\<close>

definition last_call :: "world \<Rightarrow> (string \<times> jsobj \<times> jsobj) option" where
  "last_call w = (case rev (transport_calls w) of [] \<Rightarrow> None | c # cs \<Rightarrow> Some c)"

definition last_sent_name :: "world \<Rightarrow> string option" where
  "last_sent_name w = (case last_call w of None \<Rightarrow> None | Some (n, ps, ms) \<Rightarrow> Some n)"

definition last_sent_property :: "world \<Rightarrow> string \<Rightarrow> jsval option" where
  "last_sent_property w k = (case last_call w of None \<Rightarrow> None | Some (n, ps, ms) \<Rightarrow> ps k)"

definition last_sent_measurement :: "world \<Rightarrow> string \<Rightarrow> jsval option" where
  "last_sent_measurement w k = (case last_call w of None \<Rightarrow> None | Some (n, ps, ms) \<Rightarrow> ms k)"

section \<open>Basic facts about the store\<close>

lemma heap_object_assign:
  "heap (object_assign a src w) b = (if b = a then heap w a ++ src else heap w b)"
  by (simp add: object_assign_def)

lemma next_free_object_assign: "next_free (object_assign a src w) = next_free w"
  by (simp add: object_assign_def)

lemma console_object_assign: "console (object_assign a src w) = console w"
  by (simp add: object_assign_def)

lemma transport_calls_object_assign:
  "transport_calls (object_assign a src w) = transport_calls w"
  by (simp add: object_assign_def)

lemma heap_console_error: "heap (console_error l w) = heap w"
  by (simp add: console_error_def)

section \<open>Allow-listed enrichment\<close>

text \<open>
  Claim C10. For every object passed to \<^verbatim>\<open>withConnectionInfo\<close>, the call returns the same
  builder and the keys \<^verbatim>\<open>authenticationType\<close> and \<^verbatim>\<open>providerName\<close> are written into the
  event's properties with the values read from the object. When the object does not
  carry a field, the key is still written, with the value \<^verbatim>\<open>undefined\<close>, so whatever the
  event held under that key before is overwritten.
\<close>

theorem withConnectionInfo_always_writes_both_keys:
  "\<exists>w'. withConnectionInfo ev (JObj a) w = Inr (ev, w')
      \<and> heap w' (properties ev) ''authenticationType''
            = Some (get_prop (heap w a) ''authenticationType'')
      \<and> heap w' (properties ev) ''providerName''
            = Some (get_prop (heap w a) ''providerName'')
      \<and> (heap w a ''authenticationType'' = None
            \<longrightarrow> heap w' (properties ev) ''authenticationType'' = Some JUndefined)
      \<and> (heap w a ''providerName'' = None
            \<longrightarrow> heap w' (properties ev) ''providerName'' = Some JUndefined)"
  by (simp add: withConnectionInfo_def heap_object_assign get_prop_def)

theorem withConnectionInfo_always_writes_both_keys_witness:
  "\<exists>w'. withConnectionInfo
            \<lparr>ev_reporter = None, eventName = ''view'', properties = 0, measurements = 1\<rparr>
            (JObj 2)
            \<lparr>heap = (\<lambda>_. Map.empty)
                      (0 := [''authenticationType'' \<mapsto> JStr ''SqlLogin'',
                             ''providerName'' \<mapsto> JStr ''MSSQL'']),
              next_free = 3, console = [], transport_calls = []\<rparr>
          = Inr (\<lparr>ev_reporter = None, eventName = ''view'', properties = 0, measurements = 1\<rparr>, w')
      \<and> heap w' 0 ''authenticationType'' = Some JUndefined
      \<and> heap w' 0 ''providerName'' = Some JUndefined"
proof -
  let ?ev = "\<lparr>ev_reporter = None, eventName = ''view'', properties = 0, measurements = 1\<rparr>"
  let ?w = "\<lparr>heap = (\<lambda>_. Map.empty)
                        (0 := [''authenticationType'' \<mapsto> JStr ''SqlLogin'',
                               ''providerName'' \<mapsto> JStr ''MSSQL'']),
                next_free = 3, console = [], transport_calls = []\<rparr>"
  from withConnectionInfo_always_writes_both_keys [of ?ev 2 ?w]
  obtain w' where h: "withConnectionInfo ?ev (JObj 2) ?w = Inr (?ev, w')"
     "heap w' (properties ?ev) ''authenticationType''
        = Some (get_prop (heap ?w 2) ''authenticationType'')"
     "heap w' (properties ?ev) ''providerName''
        = Some (get_prop (heap ?w 2) ''providerName'')"
    by blast
  have "heap w' 0 ''authenticationType'' = Some JUndefined"
    using h(2) by (simp add: get_prop_def)
  moreover have "heap w' 0 ''providerName'' = Some JUndefined"
    using h(3) by (simp add: get_prop_def)
  ultimately show ?thesis using h(1) by blast
qed

text \<open>
  Claim C6. For every input object, \<^verbatim>\<open>withConnectionInfo\<close> writes the two allow-listed keys
  with the object's values and touches nothing else: every other key of the event's
  properties, and every other object of the store, is as it was. A key such as
  \<^verbatim>\<open>extraField\<close> that the event did not have is therefore still absent, whatever value the
  input object holds for it.
\<close>

theorem withConnectionInfo_merges_only_allow_list:
  "\<exists>w'. withConnectionInfo ev (JObj a) w = Inr (ev, w')
      \<and> heap w' (properties ev) ''authenticationType''
            = Some (get_prop (heap w a) ''authenticationType'')
      \<and> heap w' (properties ev) ''providerName''
            = Some (get_prop (heap w a) ''providerName'')
      \<and> (\<forall>k. k \<noteq> ''authenticationType'' \<and> k \<noteq> ''providerName''
            \<longrightarrow> heap w' (properties ev) k = heap w (properties ev) k)
      \<and> (\<forall>b. b \<noteq> properties ev \<longrightarrow> heap w' b = heap w b)"
  by (simp add: withConnectionInfo_def heap_object_assign)

theorem withConnectionInfo_merges_only_allow_list_witness:
  "\<exists>w'. withConnectionInfo
            \<lparr>ev_reporter = None, eventName = ''view'', properties = 0, measurements = 1\<rparr>
            (JObj 2)
            \<lparr>heap = (\<lambda>_. Map.empty)
                      (0 := [''view'' \<mapsto> JStr ''Dashboard''],
                       2 := [''authenticationType'' \<mapsto> JStr ''AAD'',
                             ''providerName'' \<mapsto> JStr ''MSSQL'',
                             ''extraField'' \<mapsto> JStr ''x'']),
              next_free = 3, console = [], transport_calls = []\<rparr>
          = Inr (\<lparr>ev_reporter = None, eventName = ''view'', properties = 0, measurements = 1\<rparr>, w')
      \<and> heap w' 0 ''authenticationType'' = Some (JStr ''AAD'')
      \<and> heap w' 0 ''providerName'' = Some (JStr ''MSSQL'')
      \<and> heap w' 0 ''extraField'' = None
      \<and> heap w' 0 ''view'' = Some (JStr ''Dashboard'')"
proof -
  let ?ev = "\<lparr>ev_reporter = None, eventName = ''view'', properties = 0, measurements = 1\<rparr>"
  let ?w = "\<lparr>heap = (\<lambda>_. Map.empty)
                        (0 := [''view'' \<mapsto> JStr ''Dashboard''],
                         2 := [''authenticationType'' \<mapsto> JStr ''AAD'',
                               ''providerName'' \<mapsto> JStr ''MSSQL'',
                               ''extraField'' \<mapsto> JStr ''x'']),
                next_free = 3, console = [], transport_calls = []\<rparr>"
  from withConnectionInfo_merges_only_allow_list [of ?ev 2 ?w]
  obtain w' where h: "withConnectionInfo ?ev (JObj 2) ?w = Inr (?ev, w')"
     "heap w' (properties ?ev) ''authenticationType''
        = Some (get_prop (heap ?w 2) ''authenticationType'')"
     "heap w' (properties ?ev) ''providerName''
        = Some (get_prop (heap ?w 2) ''providerName'')"
     "\<forall>k. k \<noteq> ''authenticationType'' \<and> k \<noteq> ''providerName''
        \<longrightarrow> heap w' (properties ?ev) k = heap ?w (properties ?ev) k"
    by blast
  have "heap w' 0 ''authenticationType'' = Some (JStr ''AAD'')"
    using h(2) by (simp add: get_prop_def)
  moreover have "heap w' 0 ''providerName'' = Some (JStr ''MSSQL'')"
    using h(3) by (simp add: get_prop_def)
  moreover have "heap w' 0 ''extraField'' = None"
    using h(4) [rule_format, of "''extraField''"] by simp
  moreover have "heap w' 0 ''view'' = Some (JStr ''Dashboard'')"
    using h(4) [rule_format, of "''view''"] by simp
  ultimately show ?thesis using h(1) by blast
qed

section \<open>A reporter without a transport\<close>

lemma TelemetryEventImpl_new_reporter:
  "TelemetryEventImpl_new h rep name props meas w = (ev, w') \<Longrightarrow>
     ev_reporter ev = rep \<and> eventName ev = name"
  by (auto simp: TelemetryEventImpl_new_def Let_def split: prod.splits option.splits)

lemma create_reporter:
  "create h r c w = Returns (ev, w') \<Longrightarrow> ev_reporter ev = telemetryReporter r"
  by (cases c)
     (auto simp: createViewEvent_def createActionEvent_def createMetricsEvent_def
        createErrorEvent_def createErrorEvent2_def createTelemetryEvent_def Let_def
        dest: TelemetryEventImpl_new_reporter
        split: prod.splits error_arg.splits outcome.splits if_splits)

lemma send_degraded: "ev_reporter ev = None \<Longrightarrow> send ev w = w"
  by (simp add: send_def)

lemma event_step_degraded_calls:
  "ev_reporter ev = None \<Longrightarrow> event_step ev c w = Inr w' \<Longrightarrow>
     transport_calls w' = transport_calls w"
  by (cases c)
     (auto simp: withAdditionalProperties_def withAdditionalMeasurements_def
        withConnectionInfo_def withServerInfo_def send_def object_assign_def console_error_def
        Let_def
        split: if_splits jsval.splits)

lemma event_calls_degraded_calls:
  "ev_reporter ev = None \<Longrightarrow> event_calls ev cs w = (e, w') \<Longrightarrow>
     transport_calls w' = transport_calls w"
proof (induction cs arbitrary: w)
  case Nil
  then show ?case by simp
next
  case (Cons c cs)
  show ?case
  proof (cases "event_step ev c w")
    case (Inl x)
    with Cons.prems show ?thesis by simp
  next
    case (Inr w1)
    with Cons.prems have "event_calls ev cs w1 = (e, w')" by simp
    with Cons.IH [OF Cons.prems(1)] have "transport_calls w' = transport_calls w1" by blast
    with event_step_degraded_calls [OF Cons.prems(1) Inr] show ?thesis by simp
  qed
qed

text \<open>
  Claim C3. When the construction of the transport throws, the constructor of the reporter
  returns a reporter without a transport and logs one line. For every event that any
  factory method of that reporter creates, \<^verbatim>\<open>send\<close> returns with the world exactly as it
  was, and no sequence of calls on the event, \<^verbatim>\<open>send\<close> included, reaches the transport.
\<close>

theorem degraded_send_never_reaches_transport:
  assumes "VsCodeTelemetryReporter_new extensionId extensionVersion key = Inl e"
  shows "\<exists>r w1.
           TelemetryReporter_new VsCodeTelemetryReporter_new extensionId extensionVersion key start
             = (r, w1)
         \<and> telemetryReporter r = None
         \<and> length (console w1) = Suc (length (console start))
         \<and> (\<forall>h c w ev w'. create h r c w = Returns (ev, w') \<longrightarrow>
               (\<forall>w2. send ev w2 = w2)
             \<and> (\<forall>cs x w2 w3. event_calls ev cs w2 = (x, w3)
                    \<longrightarrow> transport_calls w3 = transport_calls w2))"
proof -
  let ?r = "\<lparr>telemetryReporter = None\<rparr>"
  let ?w1 = "console_error
               (''Error initializing TelemetryReporter for '' @ [CHR 0x27] @ extensionId @ [CHR 0x27]
                  @ ''. '' @ thrown_text e) start"
  have new: "TelemetryReporter_new VsCodeTelemetryReporter_new extensionId extensionVersion key start
               = (?r, ?w1)"
    using assms by (simp add: TelemetryReporter_new_def)
  have len: "length (console ?w1) = Suc (length (console start))"
    by (simp add: console_error_def)
  have rest: "\<forall>h c w ev w'. create h ?r c w = Returns (ev, w') \<longrightarrow>
               (\<forall>w2. send ev w2 = w2)
             \<and> (\<forall>cs x w2 w3. event_calls ev cs w2 = (x, w3)
                    \<longrightarrow> transport_calls w3 = transport_calls w2)"
  proof (intro allI impI)
    fix h c w ev w'
    assume "create h ?r c w = Returns (ev, w')"
    then have none: "ev_reporter ev = None" using create_reporter by fastforce
    show "(\<forall>w2. send ev w2 = w2)
        \<and> (\<forall>cs x w2 w3. event_calls ev cs w2 = (x, w3)
               \<longrightarrow> transport_calls w3 = transport_calls w2)"
      using none send_degraded event_calls_degraded_calls by blast
  qed
  show ?thesis using new len rest by (intro exI [of _ ?r] exI [of _ ?w1]) simp
qed

theorem degraded_send_never_reaches_transport_witness:
  "\<exists>r w1. TelemetryReporter_new failing_constructor ''ext'' ''1.0'' ''key'' empty_world = (r, w1)
      \<and> telemetryReporter r = None
      \<and> console w1 = [''Error initializing TelemetryReporter for '' @ [CHR 0x27] @ ''ext'' @ [CHR 0x27] @ ''. invalid key'']
      \<and> send (fst (createViewEvent example_host r ''Dashboard'' w1))
              (snd (createViewEvent example_host r ''Dashboard'' w1))
           = snd (createViewEvent example_host r ''Dashboard'' w1)
      \<and> transport_calls (sendViewEvent example_host r ''Dashboard'' w1) = []"
proof -
  have f: "failing_constructor ''ext'' ''1.0'' ''key'' = Inl (ThrownError ''invalid key'')"
    by (simp add: failing_constructor_def)
  from degraded_send_never_reaches_transport
         [where VsCodeTelemetryReporter_new = failing_constructor and extensionId = "''ext''"
            and extensionVersion = "''1.0''" and key = "''key''" and start = empty_world, OF f]
  obtain r w1 where
    h: "TelemetryReporter_new failing_constructor ''ext'' ''1.0'' ''key'' empty_world = (r, w1)"
       "telemetryReporter r = None"
       "\<forall>h c w ev w'. create h r c w = Returns (ev, w') \<longrightarrow> (\<forall>w2. send ev w2 = w2)"
    by blast
  obtain ev w2 where c: "createViewEvent example_host r ''Dashboard'' w1 = (ev, w2)"
    by (cases "createViewEvent example_host r ''Dashboard'' w1")
  then have "create example_host r (CreateViewEvent ''Dashboard'') w1 = Returns (ev, w2)" by simp
  with h(3) have s: "send ev w2 = w2" by blast
  have w1: "w1 = console_error (''Error initializing TelemetryReporter for '' @ [CHR 0x27] @ ''ext'' @ [CHR 0x27] @ ''. invalid key'') empty_world"
    using h(1) by (simp add: TelemetryReporter_new_def failing_constructor_def)
  have con: "console w1 = [''Error initializing TelemetryReporter for '' @ [CHR 0x27] @ ''ext'' @ [CHR 0x27] @ ''. invalid key'']"
    unfolding w1 by (simp add: console_error_def empty_world_def)
  have tc: "transport_calls w2 = []"
    using c unfolding w1
    by (auto simp: createViewEvent_def TelemetryEventImpl_new_def alloc_def object_assign_def
          console_error_def empty_world_def Let_def split: prod.splits)
  have "transport_calls (sendViewEvent example_host r ''Dashboard'' w1) = []"
    using c s tc by (simp add: sendViewEvent_def)
  with h(1,2) c s con show ?thesis by auto
qed

section \<open>Enrichment with values that are not objects\<close>

lemma withConnectionInfo_non_object:
  "typeof v \<noteq> ''object'' \<Longrightarrow>
     withConnectionInfo ev v w =
       Inr (ev, console_error
                  (''AdsTelemetryReporter received invalid ConnectionInfo object of type '' @ typeof v)
                  w)"
  by (simp add: withConnectionInfo_def)

lemma withServerInfo_non_object:
  "typeof v \<noteq> ''object'' \<Longrightarrow>
     withServerInfo ev v w =
       Inr (ev, console_error
                  (''AdsTelemetryReporter received invalid ServerInfo object of type '' @ typeof v)
                  w)"
  by (simp add: withServerInfo_def)

lemma withConnectionInfo_JNull:
  "withConnectionInfo ev JNull w =
     Inl (TypeError ''Cannot read properties of null (reading 'authenticationType')'')"
  by (simp add: withConnectionInfo_def)

lemma withServerInfo_JNull:
  "withServerInfo ev JNull w =
     Inl (TypeError ''Cannot read properties of null (reading 'isCloud')'')"
  by (simp add: withServerInfo_def)

text \<open>
  Claim C7, at the input \<^verbatim>\<open>null\<close>. A string, a number, a boolean, \<^verbatim>\<open>undefined\<close> or a function
  is rejected by the guard: the call logs a line, leaves every object as it was and returns
  the builder. \<^verbatim>\<open>null\<close> passes the guard, because \<^verbatim>\<open>typeof null\<close> is \<^verbatim>\<open>'object'\<close>, and both
  methods then throw a TypeError when they read the first field.
\<close>

theorem enrichment_with_null_throws:
  "withConnectionInfo ev JNull w =
     Inl (TypeError ''Cannot read properties of null (reading 'authenticationType')'')
   \<and> withServerInfo ev JNull w =
     Inl (TypeError ''Cannot read properties of null (reading 'isCloud')'')
   \<and> withConnectionInfo ev (JStr ''not-an-object'') w =
     Inr (ev, console_error
                ''AdsTelemetryReporter received invalid ConnectionInfo object of type string'' w)
   \<and> withConnectionInfo ev JUndefined w =
     Inr (ev, console_error
                ''AdsTelemetryReporter received invalid ConnectionInfo object of type undefined'' w)
   \<and> withServerInfo ev (JNum (Fin 5)) w =
     Inr (ev, console_error
                ''AdsTelemetryReporter received invalid ServerInfo object of type number'' w)"
  by (simp add: withConnectionInfo_def withServerInfo_def)

section \<open>Error events and the message used as a pattern\<close>

lemma RegExp_new_unterminated:
  "RegExp_new ''unexpected token ('' = Throws (SyntaxError ''Unterminated group'')"
  by code_simp

lemma createErrorEvent2_pattern_throws:
  "RegExp_new message = Throws e \<Longrightarrow> message \<noteq> [] \<Longrightarrow>
     createErrorEvent2 h r view name (ErrorObject message stack) False errorCode errorType w
       = Throws e"
  by (simp add: createErrorEvent2_def alloc_def Let_def)

lemma redaction_of_bob:
  "(case RegExp_new ''access denied for user (bob)'' of
      Returns regex \<Rightarrow>
        String_replace regex redaction_marker
          (''Error: access denied for user (bob)'' @ [CHR 0x0A] @ ''    at login (auth.js:10:5)'')
        = ''Error: access denied for user (bob)'' @ [CHR 0x0A] @ ''    at login (auth.js:10:5)''
    | _ \<Rightarrow> False)"
  by code_simp

lemma redaction_of_secret_value:
  "(case RegExp_new ''secret-value'' of
      Returns regex \<Rightarrow>
        String_replace regex redaction_marker
          (''Error: secret-value'' @ [CHR 0x0A] @ ''    at login (auth.js:10:5)'')
        = ''Error: <REDACTED: error-message>'' @ [CHR 0x0A] @ ''    at login (auth.js:10:5)''
    | _ \<Rightarrow> False)"
  by code_simp

lemma createErrorEvent2_stack:
  assumes "RegExp_new message = Returns regex" and "message \<noteq> []"
    and "createErrorEvent2 h r view name (ErrorObject message (Some stack)) False errorCode
           errorType w = Returns (ev, w')"
  shows "heap w' (properties ev) ''message'' = Some (JStr [])
       \<and> heap w' (properties ev) ''stack''
            = Some (JStr (String_replace regex redaction_marker stack))"
  using assms
  by (cases "azdata_version h")
     (auto simp: createErrorEvent2_def alloc_def Let_def set_prop_def TelemetryEventImpl_new_def
        object_assign_def commonProperties_def commonMeasurements_def map_add_def
        split: prod.splits)

lemma createErrorEvent2_returns:
  "RegExp_new message = Returns regex \<Longrightarrow>
     \<exists>ev w'. createErrorEvent2 h r view name (ErrorObject message stack) False errorCode
                errorType w = Returns (ev, w')"
proof -
  assume "RegExp_new message = Returns regex"
  then have
    "\<exists>p. createErrorEvent2 h r view name (ErrorObject message stack) False errorCode errorType w
           = Returns p"
    by (simp add: createErrorEvent2_def alloc_def Let_def)
  then show ?thesis by (metis surj_pair)
qed

text \<open>
  Claim C1, at the error \<^verbatim>\<open>new Error("access denied for user (bob)")\<close> with the stack that
  starts with its message. The message is handed to \<^verbatim>\<open>new RegExp\<close> as a pattern, in which
  the parentheses form a group; the pattern matches the text without the parentheses only,
  so nothing is replaced: the event is created, its \<^verbatim>\<open>message\<close> property is the empty string
  and its \<^verbatim>\<open>stack\<close> property is the stack as it was, with the message in it.
\<close>

theorem createErrorEvent2_leaves_message_in_stack:
  "\<exists>ev w'.
      createErrorEvent2 h r view name
        (ErrorObject ''access denied for user (bob)''
           (Some (''Error: access denied for user (bob)'' @ [CHR 0x0A]
                    @ ''    at login (auth.js:10:5)'')))
        False errorCode errorType w = Returns (ev, w')
    \<and> heap w' (properties ev) ''message'' = Some (JStr [])
    \<and> heap w' (properties ev) ''stack''
          = Some (JStr (''Error: access denied for user (bob)'' @ [CHR 0x0A]
                          @ ''    at login (auth.js:10:5)''))"
proof -
  let ?m = "''access denied for user (bob)''"
  let ?s = "''Error: access denied for user (bob)'' @ [CHR 0x0A] @ ''    at login (auth.js:10:5)''"
  obtain regex where re: "RegExp_new ?m = Returns regex"
    and same: "String_replace regex redaction_marker ?s = ?s"
    using redaction_of_bob by (cases "RegExp_new ?m") auto
  obtain ev w' where
    c: "createErrorEvent2 h r view name (ErrorObject ?m (Some ?s)) False errorCode errorType w
          = Returns (ev, w')"
    using createErrorEvent2_returns [OF re] by blast
  have "?m \<noteq> []" by simp
  from createErrorEvent2_stack [OF re this c] same c show ?thesis by auto
qed

text \<open>
  Claim C9, at two inputs. An error whose message is not a well-formed pattern makes
  \<^verbatim>\<open>new RegExp\<close> throw a SyntaxError, which \<^verbatim>\<open>createErrorEvent2\<close> and \<^verbatim>\<open>sendErrorEvent2\<close> let
  through to their caller; and \<^verbatim>\<open>withConnectionInfo(null)\<close> and \<^verbatim>\<open>withServerInfo(null)\<close> throw
  a TypeError, so a sequence of calls on an event ends there with the exception.
\<close>

theorem public_operations_can_throw:
  "createErrorEvent2 h r view name (ErrorObject ''unexpected token ('' stack) False errorCode
     errorType w = Throws (SyntaxError ''Unterminated group'')
   \<and> sendErrorEvent2 h r view name (ErrorObject ''unexpected token ('' stack) False errorCode
     errorType w = Throws (SyntaxError ''Unterminated group'')
   \<and> event_calls ev [WithConnectionInfo JNull, Send] w =
       (Some (TypeError ''Cannot read properties of null (reading 'authenticationType')''), w)
   \<and> event_calls ev [WithServerInfo JNull, Send] w =
       (Some (TypeError ''Cannot read properties of null (reading 'isCloud')''), w)"
proof -
  have ne: "''unexpected token ('' \<noteq> []" by simp
  have c: "createErrorEvent2 h r view name (ErrorObject ''unexpected token ('' stack) False
             errorCode errorType w = Throws (SyntaxError ''Unterminated group'')"
    by (rule createErrorEvent2_pattern_throws [OF RegExp_new_unterminated ne])
  then have s: "sendErrorEvent2 h r view name (ErrorObject ''unexpected token ('' stack) False
             errorCode errorType w = Throws (SyntaxError ''Unterminated group'')"
    by (simp add: sendErrorEvent2_def)
  show ?thesis using c s by (simp add: withConnectionInfo_JNull withServerInfo_JNull)
qed

section \<open>The duration of an action event\<close>

lemma truthy_num_iff: "truthy_num d \<longleftrightarrow> d \<noteq> Fin 0 \<and> d \<noteq> NaN"
  by (cases d) auto

lemma createActionEvent_shape:
  "createActionEvent h r view action target source durationInMs w = (ev, w') \<Longrightarrow>
     ev_reporter ev = telemetryReporter r \<and> eventName ev = ''action''
     \<and> properties ev = Suc (next_free w) \<and> measurements ev = next_free w
     \<and> transport_calls w' = transport_calls w \<and> console w' = console w
     \<and> next_free w' = Suc (Suc (next_free w))
     \<and> heap w' = (heap w)
          (next_free w :=
             (case durationInMs of
                None \<Rightarrow> Map.empty
              | Some d \<Rightarrow> if truthy_num d then [''durationInMs'' \<mapsto> JNum d] else Map.empty)
             ++ commonMeasurements h,
           Suc (next_free w) :=
             [''view'' \<mapsto> JStr view, ''action'' \<mapsto> JStr action,
              ''target'' \<mapsto> JStr (or_default target), ''source'' \<mapsto> JStr (or_default source)]
             ++ commonProperties h)"
  by (auto simp: createActionEvent_def TelemetryEventImpl_new_def alloc_def object_assign_def
        Let_def fun_upd_twist)

lemma commonMeasurements_duration: "commonMeasurements h ''durationInMs'' = None"
  by (simp add: commonMeasurements_def)

lemma send_active:
  "ev_reporter ev = Some t \<Longrightarrow>
     transport_calls (send ev w)
       = transport_calls w @ [(eventName ev, heap w (properties ev), heap w (measurements ev))]
     \<and> heap (send ev w) = heap w \<and> next_free (send ev w) = next_free w"
  by (simp add: send_def Let_def console_error_def split: option.splits)

text \<open>
  Claim C8, as amended. When no duration is supplied, and also when the supplied duration
  is 0 or NaN, the measurements of the action event have no key \<^verbatim>\<open>durationInMs\<close>; for every
  other supplied number they map \<^verbatim>\<open>durationInMs\<close> to that number. \<^verbatim>\<open>sendActionEvent\<close> hands the
  transport the same measurement.
\<close>

theorem createActionEvent_duration_measurement:
  assumes "createActionEvent h r view action target source durationInMs w = (ev, w')"
  shows "heap w' (measurements ev) ''durationInMs''
           = (case durationInMs of
                None \<Rightarrow> None
              | Some d \<Rightarrow> if d = Fin 0 \<or> d = NaN then None else Some (JNum d))
       \<and> (telemetryReporter r \<noteq> None \<longrightarrow>
            last_sent_name (sendActionEvent h r view action target source durationInMs w)
              = Some ''action''
          \<and> last_sent_measurement
              (sendActionEvent h r view action target source durationInMs w) ''durationInMs''
              = (case durationInMs of
                   None \<Rightarrow> None
                 | Some d \<Rightarrow> if d = Fin 0 \<or> d = NaN then None else Some (JNum d)))"
proof -
  note sh = createActionEvent_shape [OF assms]
  have m: "heap w' (measurements ev) ''durationInMs''
           = (case durationInMs of
                None \<Rightarrow> None
              | Some d \<Rightarrow> if d = Fin 0 \<or> d = NaN then None else Some (JNum d))"
    using sh
    by (auto simp: map_add_def commonMeasurements_duration truthy_num_iff split: option.splits)
  have s: "telemetryReporter r \<noteq> None \<Longrightarrow>
            last_call (sendActionEvent h r view action target source durationInMs w)
              = Some (''action'', heap w' (properties ev), heap w' (measurements ev))"
  proof -
    assume "telemetryReporter r \<noteq> None"
    then obtain t where t: "ev_reporter ev = Some t" using sh by auto
    have "sendActionEvent h r view action target source durationInMs w = send ev w'"
      using assms by (simp add: sendActionEvent_def)
    then show ?thesis using send_active [OF t, of w'] sh by (simp add: last_call_def)
  qed
  show ?thesis using m s by (simp add: last_sent_name_def last_sent_measurement_def)
qed

theorem createActionEvent_duration_measurement_witness:
  "heap (snd (createActionEvent example_host active_reporter ''Dashboard'' ''Click'' None None
                (Some (Fin 250)) empty_world))
        (measurements (fst (createActionEvent example_host active_reporter ''Dashboard'' ''Click''
                None None (Some (Fin 250)) empty_world))) ''durationInMs''
     = Some (JNum (Fin 250))
   \<and> last_sent_measurement
       (sendActionEvent example_host active_reporter ''Dashboard'' ''Click'' None None
          (Some (Fin 250)) empty_world) ''durationInMs''
     = Some (JNum (Fin 250))"
proof -
  obtain ev w' where
    c: "createActionEvent example_host active_reporter ''Dashboard'' ''Click'' None None
          (Some (Fin 250)) empty_world = (ev, w')"
    by (cases "createActionEvent example_host active_reporter ''Dashboard'' ''Click'' None None
          (Some (Fin 250)) empty_world")
  have a: "telemetryReporter active_reporter \<noteq> None" by (simp add: active_reporter_def)
  from createActionEvent_duration_measurement [OF c] a c show ?thesis by simp
qed

text \<open>
  The claim as it was stated fails for a supplied duration of 0: the event that
  \<^verbatim>\<open>sendActionEvent\<close> sends has no measurement \<^verbatim>\<open>durationInMs\<close>.
\<close>

theorem zero_duration_is_not_sent:
  "last_sent_name
      (sendActionEvent example_host active_reporter ''Dashboard'' ''Click'' None None
         (Some (Fin 0)) empty_world) = Some ''action''
   \<and> last_sent_measurement
      (sendActionEvent example_host active_reporter ''Dashboard'' ''Click'' None None
         (Some (Fin 0)) empty_world) ''durationInMs'' = None"
  by (simp add: sendActionEvent_def createActionEvent_def TelemetryEventImpl_new_def alloc_def
        object_assign_def send_def active_reporter_def accepting_transport_def empty_world_def
        last_sent_name_def last_sent_measurement_def last_call_def commonMeasurements_def
        map_add_def Let_def)

section \<open>What the constructor and the methods of an event change\<close>

lemma common_keys_disjoint:
  "commonProperties h k = Some v \<Longrightarrow> commonMeasurements h k = None"
  by (auto simp: commonProperties_def commonMeasurements_def split: option.splits if_splits)

lemma TelemetryEventImpl_new_common:
  assumes "TelemetryEventImpl_new h rep name props meas w = (ev, w')"
    and "allocated w props" and "allocated w meas"
  shows "(\<forall>k v. commonProperties h k = Some v \<longrightarrow> heap w' (properties ev) k = Some v)
       \<and> (\<forall>k v. commonMeasurements h k = Some v \<longrightarrow> heap w' (measurements ev) k = Some v)"
  using assms
  by (auto simp: TelemetryEventImpl_new_def alloc_def object_assign_def Let_def map_add_def
        common_keys_disjoint allocated_def
        split: option.splits prod.splits)

lemma TelemetryEventImpl_new_frame:
  assumes "TelemetryEventImpl_new h rep name props meas w = (ev, w')"
  shows "(\<forall>b. b < next_free w \<and> b \<noteq> properties ev \<and> b \<noteq> measurements ev
              \<longrightarrow> heap w' b = heap w b)
       \<and> next_free w \<le> next_free w'
       \<and> (properties ev < next_free w \<longrightarrow> props = Some (properties ev))
       \<and> (measurements ev < next_free w \<longrightarrow> meas = Some (measurements ev))
       \<and> transport_calls w' = transport_calls w \<and> console w' = console w
       \<and> ev_reporter ev = rep \<and> eventName ev = name"
  using assms
  by (auto simp: TelemetryEventImpl_new_def alloc_def object_assign_def Let_def
        split: option.splits prod.splits)

lemma set_prop_frame:
  "heap (set_prop a k v w) b = (if b = a then (heap w a)(k \<mapsto> v) else heap w b)"
  "next_free (set_prop a k v w) = next_free w"
  "transport_calls (set_prop a k v w) = transport_calls w"
  "console (set_prop a k v w) = console w"
  by (simp_all add: set_prop_def)

text \<open>
  Every factory method ends in the constructor, called in a world that differs from the
  caller's only by objects allocated since; an object of the caller reaches the constructor
  only as an argument of \<^verbatim>\<open>createTelemetryEvent\<close> or \<^verbatim>\<open>createMetricsEvent\<close>.
\<close>

lemma create_via_constructor:
  assumes "create h r c w = Returns (ev, w1)"
  shows "\<exists>name props meas w0.
           TelemetryEventImpl_new h (telemetryReporter r) name props meas w0 = (ev, w1)
         \<and> (\<forall>b. b < next_free w \<longrightarrow> heap w0 b = heap w b)
         \<and> next_free w \<le> next_free w0
         \<and> transport_calls w0 = transport_calls w \<and> console w0 = console w
         \<and> (call_allocated w c \<longrightarrow> allocated w0 props \<and> allocated w0 meas)
         \<and> (\<forall>a. props = Some a \<and> a < next_free w
                \<longrightarrow> (\<exists>n m. c = CreateTelemetryEvent n (Some a) m))
         \<and> (\<forall>a. meas = Some a \<and> a < next_free w
                \<longrightarrow> (\<exists>n p. c = CreateTelemetryEvent n p (Some a))
                    \<or> (\<exists>g. c = CreateMetricsEvent a g))"
proof (cases c)
  case (CreateViewEvent view)
  with assms show ?thesis
    by (auto simp: createViewEvent_def alloc_def allocated_def Let_def intro!: exI)
next
  case (CreateActionEvent view action target source durationInMs)
  with assms show ?thesis
    by (auto simp: createActionEvent_def alloc_def allocated_def Let_def intro!: exI)
next
  case (CreateMetricsEvent m g)
  with assms show ?thesis
    by (auto simp: createMetricsEvent_def alloc_def allocated_def Let_def intro!: exI)
next
  case (CreateErrorEvent view name errorCode errorType)
  with assms show ?thesis
    by (auto simp: createErrorEvent_def alloc_def allocated_def Let_def intro!: exI)
next
  case (CreateErrorEvent2 view name error includeMessage errorCode errorType)
  with assms show ?thesis
    by (auto simp: createErrorEvent2_def alloc_def allocated_def Let_def set_prop_frame
          split: error_arg.splits outcome.splits if_splits intro!: exI)
next
  case (CreateTelemetryEvent name props meas)
  with assms show ?thesis
    by (auto simp: createTelemetryEvent_def allocated_def intro!: exI)
qed
lemma event_step_effect:
  assumes "event_step ev c w = Inr w'"
  shows "(\<forall>b. b \<noteq> properties ev \<and> b \<noteq> measurements ev \<longrightarrow> heap w' b = heap w b)
       \<and> (\<forall>b. dom (heap w b) \<subseteq> dom (heap w' b))
       \<and> next_free w' = next_free w
       \<and> (transport_calls w' = transport_calls w
          \<or> transport_calls w'
               = transport_calls w
                   @ [(eventName ev, heap w (properties ev), heap w (measurements ev))])"
proof (cases c)
  case (WithAdditionalProperties a)
  with assms have "w' = object_assign (properties ev) (heap w a) w"
    by (auto simp: withAdditionalProperties_def)
  then show ?thesis
    by (simp add: heap_object_assign next_free_object_assign transport_calls_object_assign)
next
  case (WithAdditionalMeasurements a)
  with assms have "w' = object_assign (measurements ev) (heap w a) w"
    by (auto simp: withAdditionalMeasurements_def)
  then show ?thesis
    by (simp add: heap_object_assign next_free_object_assign transport_calls_object_assign)
next
  case (WithConnectionInfo v)
  with assms have
    "(\<exists>src. w' = object_assign (properties ev) src w) \<or> (\<exists>line. w' = console_error line w)"
    by (auto simp: withConnectionInfo_def split: if_splits jsval.splits)
  then show ?thesis
    by (elim disjE exE)
       (simp_all add: heap_object_assign next_free_object_assign transport_calls_object_assign
          console_error_def)
next
  case (WithServerInfo v)
  with assms have
    "(\<exists>src. w' = object_assign (properties ev) src w) \<or> (\<exists>line. w' = console_error line w)"
    by (auto simp: withServerInfo_def Let_def split: if_splits jsval.splits)
  then show ?thesis
    by (elim disjE exE)
       (simp_all add: heap_object_assign next_free_object_assign transport_calls_object_assign
          console_error_def)
next
  case Send
  with assms show ?thesis
    by (auto simp: send_def console_error_def Let_def split: option.splits)
qed

lemma event_calls_effect:
  "event_calls ev cs w = (x, w') \<Longrightarrow>
     (\<forall>b. b \<noteq> properties ev \<and> b \<noteq> measurements ev \<longrightarrow> heap w' b = heap w b)
     \<and> (\<forall>b. dom (heap w b) \<subseteq> dom (heap w' b))
     \<and> next_free w' = next_free w
     \<and> (\<exists>new. transport_calls w' = transport_calls w @ new
           \<and> (\<forall>call \<in> set new.
                 fst call = eventName ev
               \<and> dom (heap w (properties ev)) \<subseteq> dom (fst (snd call))
               \<and> dom (heap w (measurements ev)) \<subseteq> dom (snd (snd call))))"
proof (induction cs arbitrary: w)
  case Nil
  then show ?case by simp
next
  case (Cons c cs)
  show ?case
  proof (cases "event_step ev c w")
    case (Inl e)
    with Cons.prems show ?thesis by simp
  next
    case (Inr wa)
    with Cons.prems have rest: "event_calls ev cs wa = (x, w')" by simp
    note st = event_step_effect [OF Inr]
    note ih = Cons.IH [OF rest]
    from ih obtain new where
      new: "transport_calls w' = transport_calls wa @ new"
      and newp: "\<forall>call \<in> set new.
                 fst call = eventName ev
               \<and> dom (heap wa (properties ev)) \<subseteq> dom (fst (snd call))
               \<and> dom (heap wa (measurements ev)) \<subseteq> dom (snd (snd call))"
      by blast
    have mono: "dom (heap w (properties ev)) \<subseteq> dom (heap wa (properties ev))"
               "dom (heap w (measurements ev)) \<subseteq> dom (heap wa (measurements ev))"
      using st by blast+
    have frame: "\<forall>b. b \<noteq> properties ev \<and> b \<noteq> measurements ev \<longrightarrow> heap w' b = heap w b"
      using st ih by simp
    have doms: "\<forall>b. dom (heap w b) \<subseteq> dom (heap w' b)"
      using st ih by (meson subset_trans)
    have nf: "next_free w' = next_free w" using st ih by simp
    let ?sent = "(eventName ev, heap w (properties ev), heap w (measurements ev))"
    have newp': "\<forall>call \<in> set new.
                 fst call = eventName ev
               \<and> dom (heap w (properties ev)) \<subseteq> dom (fst (snd call))
               \<and> dom (heap w (measurements ev)) \<subseteq> dom (snd (snd call))"
      using newp mono by (meson subset_trans)
    then have calls:
      "\<exists>new'. transport_calls w' = transport_calls w @ new'
           \<and> (\<forall>call \<in> set new'.
                 fst call = eventName ev
               \<and> dom (heap w (properties ev)) \<subseteq> dom (fst (snd call))
               \<and> dom (heap w (measurements ev)) \<subseteq> dom (snd (snd call)))"
    proof (cases "transport_calls wa = transport_calls w")
      case True
      with new newp' show ?thesis by auto
    next
      case False
      with st have "transport_calls wa = transport_calls w @ [?sent]" by blast
      with new have "transport_calls w' = transport_calls w @ (?sent # new)" by simp
      moreover have "\<forall>call \<in> set (?sent # new).
                 fst call = eventName ev
               \<and> dom (heap w (properties ev)) \<subseteq> dom (fst (snd call))
               \<and> dom (heap w (measurements ev)) \<subseteq> dom (snd (snd call))"
        using newp' by simp
      ultimately show ?thesis by blast
    qed
    show ?thesis using frame doms nf calls by blast
  qed
qed
section \<open>Common fields\<close>

lemma isMsftInternal_example_host: "isMsftInternal example_host"
  by code_simp

lemma commonProperties_example_host:
  "commonProperties example_host ''common.adsversion'' = Some (JStr ''1.44.0'')"
  by (simp add: commonProperties_def example_host_def)

lemma commonMeasurements_example_host:
  "commonMeasurements example_host ''common.msftInternal'' = Some (JNum (Fin 1))"
  by (simp add: commonMeasurements_def isMsftInternal_example_host)

text \<open>
  Claim C2, as amended. For every factory method, the event it creates holds every common
  field, with the common value: the constructor assigns the common fields after the fields
  of the call, so on a collision the common value replaces the value of the call. No later
  call on the event removes a key, so every event handed to the transport by \<^verbatim>\<open>send\<close>
  contains every common-field key.
\<close>

theorem common_fields_are_assigned_last:
  assumes "create h r c w = Returns (ev, w1)" and "call_allocated w c"
  shows "(\<forall>k v. commonProperties h k = Some v \<longrightarrow> heap w1 (properties ev) k = Some v)
       \<and> (\<forall>k v. commonMeasurements h k = Some v \<longrightarrow> heap w1 (measurements ev) k = Some v)
       \<and> (\<forall>cs x w2. event_calls ev cs w1 = (x, w2) \<longrightarrow>
            (\<exists>new. transport_calls w2 = transport_calls w1 @ new
               \<and> (\<forall>call \<in> set new.
                     fst call = eventName ev
                   \<and> dom (commonProperties h) \<subseteq> dom (fst (snd call))
                   \<and> dom (commonMeasurements h) \<subseteq> dom (snd (snd call)))))"
proof -
  from create_via_constructor [OF assms(1)] assms(2) obtain name props meas w0 where
    new: "TelemetryEventImpl_new h (telemetryReporter r) name props meas w0 = (ev, w1)"
    and al: "allocated w0 props" "allocated w0 meas"
    by blast
  note common = TelemetryEventImpl_new_common [OF new al]
  have domp: "dom (commonProperties h) \<subseteq> dom (heap w1 (properties ev))"
    using common by (auto simp: dom_def)
  have domm: "dom (commonMeasurements h) \<subseteq> dom (heap w1 (measurements ev))"
    using common by (auto simp: dom_def)
  have sent: "\<exists>new. transport_calls w2 = transport_calls w1 @ new
               \<and> (\<forall>call \<in> set new.
                     fst call = eventName ev
                   \<and> dom (commonProperties h) \<subseteq> dom (fst (snd call))
                   \<and> dom (commonMeasurements h) \<subseteq> dom (snd (snd call)))"
    if "event_calls ev cs w1 = (x, w2)" for cs x w2
  proof -
    from event_calls_effect [OF that] obtain new where
      n: "transport_calls w2 = transport_calls w1 @ new"
      and p: "\<forall>call \<in> set new.
                 fst call = eventName ev
               \<and> dom (heap w1 (properties ev)) \<subseteq> dom (fst (snd call))
               \<and> dom (heap w1 (measurements ev)) \<subseteq> dom (snd (snd call))"
      by blast
    have "\<forall>call \<in> set new.
                 fst call = eventName ev
               \<and> dom (commonProperties h) \<subseteq> dom (fst (snd call))
               \<and> dom (commonMeasurements h) \<subseteq> dom (snd (snd call))"
      using p domp domm by (meson subset_trans)
    with n show ?thesis by blast
  qed
  show ?thesis using common sent by blast
qed

theorem common_fields_are_assigned_last_witness:
  "\<exists>ev w1.
      create example_host active_reporter (CreateTelemetryEvent ''custom'' (Some 0) None)
        (snd (alloc [''common.adsversion'' \<mapsto> JStr ''mine''] empty_world)) = Returns (ev, w1)
    \<and> heap w1 (properties ev) ''common.adsversion'' = Some (JStr ''1.44.0'')
    \<and> heap w1 (measurements ev) ''common.msftInternal'' = Some (JNum (Fin 1))"
proof -
  let ?w = "snd (alloc [''common.adsversion'' \<mapsto> JStr ''mine''] empty_world)"
  let ?c = "CreateTelemetryEvent ''custom'' (Some 0) None"
  obtain ev w1 where c: "create example_host active_reporter ?c ?w = Returns (ev, w1)"
    by (cases "createTelemetryEvent example_host active_reporter ''custom'' (Some 0) None ?w")
       simp
  have a: "call_allocated ?w ?c"
    by (simp add: allocated_def alloc_def empty_world_def)
  from common_fields_are_assigned_last [OF c a]
       commonProperties_example_host commonMeasurements_example_host
  have "heap w1 (properties ev) ''common.adsversion'' = Some (JStr ''1.44.0'')"
       "heap w1 (measurements ev) ''common.msftInternal'' = Some (JNum (Fin 1))"
    by blast+
  with c show ?thesis by blast
qed

text \<open>
  The claim as it was stated fails when a property of the call has the key of a common
  field: the caller sends \<^verbatim>\<open>common.adsversion\<close> as \<^verbatim>\<open>mine\<close>, and the transport receives the
  version of the host.
\<close>

theorem common_version_replaces_the_value_of_the_call:
  "heap (snd (alloc [''common.adsversion'' \<mapsto> JStr ''mine''] empty_world)) 0
      ''common.adsversion'' = Some (JStr ''mine'')
   \<and> last_sent_name
       (sendTelemetryEvent example_host active_reporter ''custom'' (Some 0) None
          (snd (alloc [''common.adsversion'' \<mapsto> JStr ''mine''] empty_world))) = Some ''custom''
   \<and> last_sent_property
       (sendTelemetryEvent example_host active_reporter ''custom'' (Some 0) None
          (snd (alloc [''common.adsversion'' \<mapsto> JStr ''mine''] empty_world)))
       ''common.adsversion'' = Some (JStr ''1.44.0'')"
  by (simp add: sendTelemetryEvent_def createTelemetryEvent_def TelemetryEventImpl_new_def
        alloc_def object_assign_def send_def active_reporter_def accepting_transport_def
        empty_world_def last_sent_name_def last_sent_property_def last_call_def
        commonProperties_example_host map_add_def Let_def)

section \<open>Objects of the caller\<close>

lemma create_frame:
  assumes "create h r c w = Returns (ev, w1)"
  shows "(\<forall>b. b < next_free w \<and> b \<noteq> properties ev \<and> b \<noteq> measurements ev
              \<longrightarrow> heap w1 b = heap w b)
       \<and> (properties ev < next_free w
            \<longrightarrow> (\<exists>n m. c = CreateTelemetryEvent n (Some (properties ev)) m))
       \<and> (measurements ev < next_free w
            \<longrightarrow> (\<exists>n p. c = CreateTelemetryEvent n p (Some (measurements ev)))
                \<or> (\<exists>g. c = CreateMetricsEvent (measurements ev) g))"
proof -
  from create_via_constructor [OF assms] obtain name props meas w0 where
    new: "TelemetryEventImpl_new h (telemetryReporter r) name props meas w0 = (ev, w1)"
    and same: "\<forall>b. b < next_free w \<longrightarrow> heap w0 b = heap w b"
    and le: "next_free w \<le> next_free w0"
    and p: "\<forall>a. props = Some a \<and> a < next_free w
                \<longrightarrow> (\<exists>n m. c = CreateTelemetryEvent n (Some a) m)"
    and m: "\<forall>a. meas = Some a \<and> a < next_free w
                \<longrightarrow> (\<exists>n p. c = CreateTelemetryEvent n p (Some a))
                    \<or> (\<exists>g. c = CreateMetricsEvent a g)"
    by blast
  note fr = TelemetryEventImpl_new_frame [OF new]
  have 1: "\<forall>b. b < next_free w \<and> b \<noteq> properties ev \<and> b \<noteq> measurements ev
              \<longrightarrow> heap w1 b = heap w b"
    using fr same le by (metis less_le_trans)
  have 2: "properties ev < next_free w
            \<longrightarrow> (\<exists>n m. c = CreateTelemetryEvent n (Some (properties ev)) m)"
    using fr p le by (metis less_le_trans)
  have 3: "measurements ev < next_free w
            \<longrightarrow> (\<exists>n p. c = CreateTelemetryEvent n p (Some (measurements ev)))
                \<or> (\<exists>g. c = CreateMetricsEvent (measurements ev) g)"
    using fr m le by (metis less_le_trans)
  show ?thesis using 1 2 3 by blast
qed

lemma create_adopts_the_callers_maps:
  "create h r (CreateTelemetryEvent n (Some a) m) w = Returns (ev, w1) \<Longrightarrow> properties ev = a"
  "create h r (CreateTelemetryEvent n p (Some a)) w = Returns (ev, w1) \<Longrightarrow> measurements ev = a"
  "create h r (CreateMetricsEvent a g) w = Returns (ev, w1) \<Longrightarrow> measurements ev = a"
  by (auto simp: createTelemetryEvent_def createMetricsEvent_def TelemetryEventImpl_new_def
        alloc_def Let_def split: option.splits prod.splits)

lemma TimedAction_send_frame:
  "b < next_free w \<Longrightarrow> heap (TimedAction_send h ta now w) b = heap w b"
proof -
  assume b: "b < next_free w"
  obtain ev w1 where
    c: "createActionEvent h (ta_reporter ta) (ta_view ta) (ta_action ta) (Some (ta_source ta))
          (Some (ta_target ta)) (Some (Fin (real_of_int (now - ta_start ta)))) w = (ev, w1)"
    by (cases "createActionEvent h (ta_reporter ta) (ta_view ta) (ta_action ta)
          (Some (ta_source ta)) (Some (ta_target ta))
          (Some (Fin (real_of_int (now - ta_start ta)))) w")
  note sh = createActionEvent_shape [OF c]
  have "heap (TimedAction_send h ta now w) b
        = heap (object_assign (measurements ev) (heap (object_assign (properties ev)
             (heap w1 (ta_properties ta)) w1) (ta_measures ta))
             (object_assign (properties ev) (heap w1 (ta_properties ta)) w1)) b"
    using c
    by (simp add: TimedAction_send_def withAdditionalProperties_def
          withAdditionalMeasurements_def send_def console_error_def Let_def
          split: option.splits)
  also have "\<dots> = heap w b"
    using sh b by (simp add: heap_object_assign)
  finally show ?thesis .
qed

text \<open>
  Claim C4, as amended. No method copies a map. The maps passed to \<^verbatim>\<open>createTelemetryEvent\<close>
  and the measurements passed to \<^verbatim>\<open>createMetricsEvent\<close> become the event's own maps, and the
  common fields and every later enrichment are written into them. Everything else the
  caller owns is left as it was: a factory method writes to no object that existed before
  the call other than the two maps of the event it returns; a sequence of calls on an
  event, \<^verbatim>\<open>send\<close> included, writes to no object other than those two maps, so the argument
  of \<^verbatim>\<open>withAdditionalProperties\<close>, \<^verbatim>\<open>withAdditionalMeasurements\<close>, \<^verbatim>\<open>withConnectionInfo\<close> or
  \<^verbatim>\<open>withServerInfo\<close> is only read; a TimedAction writes to its own two accumulators only, and
  its \<^verbatim>\<open>send\<close> to objects it creates.
\<close>

theorem only_the_maps_of_the_event_are_written:
  "(\<forall>ev w1. create h r c w = Returns (ev, w1) \<longrightarrow>
       (\<forall>b. b < next_free w \<and> b \<noteq> properties ev \<and> b \<noteq> measurements ev
             \<longrightarrow> heap w1 b = heap w b)
     \<and> (properties ev < next_free w
           \<longrightarrow> (\<exists>n m. c = CreateTelemetryEvent n (Some (properties ev)) m))
     \<and> (measurements ev < next_free w
           \<longrightarrow> (\<exists>n p. c = CreateTelemetryEvent n p (Some (measurements ev)))
               \<or> (\<exists>g. c = CreateMetricsEvent (measurements ev) g))
     \<and> (\<forall>n a m. c = CreateTelemetryEvent n (Some a) m \<longrightarrow> properties ev = a)
     \<and> (\<forall>n p a. c = CreateTelemetryEvent n p (Some a) \<longrightarrow> measurements ev = a)
     \<and> (\<forall>a g. c = CreateMetricsEvent a g \<longrightarrow> measurements ev = a))
   \<and> (\<forall>ev cs x w2. event_calls ev cs w = (x, w2) \<longrightarrow>
         (\<forall>b. b \<noteq> properties ev \<and> b \<noteq> measurements ev \<longrightarrow> heap w2 b = heap w b))
   \<and> (\<forall>ta a b. b \<noteq> ta_properties ta
         \<longrightarrow> heap (snd (TimedAction_withAdditionalProperties ta a w)) b = heap w b)
   \<and> (\<forall>ta a b. b \<noteq> ta_measures ta
         \<longrightarrow> heap (snd (TimedAction_withAdditionalMeasures ta a w)) b = heap w b)
   \<and> (\<forall>ta now b. b < next_free w \<longrightarrow> heap (TimedAction_send h ta now w) b = heap w b)"
proof -
  have 1: "\<forall>ev w1. create h r c w = Returns (ev, w1) \<longrightarrow>
       (\<forall>b. b < next_free w \<and> b \<noteq> properties ev \<and> b \<noteq> measurements ev
             \<longrightarrow> heap w1 b = heap w b)
     \<and> (properties ev < next_free w
           \<longrightarrow> (\<exists>n m. c = CreateTelemetryEvent n (Some (properties ev)) m))
     \<and> (measurements ev < next_free w
           \<longrightarrow> (\<exists>n p. c = CreateTelemetryEvent n p (Some (measurements ev)))
               \<or> (\<exists>g. c = CreateMetricsEvent (measurements ev) g))
     \<and> (\<forall>n a m. c = CreateTelemetryEvent n (Some a) m \<longrightarrow> properties ev = a)
     \<and> (\<forall>n p a. c = CreateTelemetryEvent n p (Some a) \<longrightarrow> measurements ev = a)
     \<and> (\<forall>a g. c = CreateMetricsEvent a g \<longrightarrow> measurements ev = a)"
  proof (intro allI impI)
    fix ev w1
    assume cr: "create h r c w = Returns (ev, w1)"
    note fr = create_frame [OF cr]
    have a: "\<forall>n a m. c = CreateTelemetryEvent n (Some a) m \<longrightarrow> properties ev = a"
      using cr create_adopts_the_callers_maps(1) by auto
    have b: "\<forall>n p a. c = CreateTelemetryEvent n p (Some a) \<longrightarrow> measurements ev = a"
      using cr create_adopts_the_callers_maps(2) by auto
    have d: "\<forall>a g. c = CreateMetricsEvent a g \<longrightarrow> measurements ev = a"
      using cr create_adopts_the_callers_maps(3) by auto
    show "(\<forall>b. b < next_free w \<and> b \<noteq> properties ev \<and> b \<noteq> measurements ev
             \<longrightarrow> heap w1 b = heap w b)
     \<and> (properties ev < next_free w
           \<longrightarrow> (\<exists>n m. c = CreateTelemetryEvent n (Some (properties ev)) m))
     \<and> (measurements ev < next_free w
           \<longrightarrow> (\<exists>n p. c = CreateTelemetryEvent n p (Some (measurements ev)))
               \<or> (\<exists>g. c = CreateMetricsEvent (measurements ev) g))
     \<and> (\<forall>n a m. c = CreateTelemetryEvent n (Some a) m \<longrightarrow> properties ev = a)
     \<and> (\<forall>n p a. c = CreateTelemetryEvent n p (Some a) \<longrightarrow> measurements ev = a)
     \<and> (\<forall>a g. c = CreateMetricsEvent a g \<longrightarrow> measurements ev = a)"
      using fr a b d by (intro conjI) (elim conjE, assumption)+
  qed
  have 2: "\<forall>ev cs x w2. event_calls ev cs w = (x, w2) \<longrightarrow>
         (\<forall>b. b \<noteq> properties ev \<and> b \<noteq> measurements ev \<longrightarrow> heap w2 b = heap w b)"
    using event_calls_effect by blast
  have 3: "\<forall>ta a b. b \<noteq> ta_properties ta
         \<longrightarrow> heap (snd (TimedAction_withAdditionalProperties ta a w)) b = heap w b"
    by (simp add: TimedAction_withAdditionalProperties_def heap_object_assign)
  have 4: "\<forall>ta a b. b \<noteq> ta_measures ta
         \<longrightarrow> heap (snd (TimedAction_withAdditionalMeasures ta a w)) b = heap w b"
    by (simp add: TimedAction_withAdditionalMeasures_def heap_object_assign)
  have 5: "\<forall>ta now b. b < next_free w \<longrightarrow> heap (TimedAction_send h ta now w) b = heap w b"
    using TimedAction_send_frame by blast
  show ?thesis using 1 2 3 4 5 by blast
qed

theorem only_the_maps_of_the_event_are_written_witness:
  "\<exists>ev w1.
      create example_host active_reporter (CreateViewEvent ''Dashboard'')
        (snd (alloc [''tab'' \<mapsto> JStr ''Backups''] empty_world)) = Returns (ev, w1)
    \<and> heap w1 0 = [''tab'' \<mapsto> JStr ''Backups'']
    \<and> heap (snd (event_calls ev [WithAdditionalProperties 0, WithConnectionInfo (JObj 0), Send]
                    w1)) 0
        = [''tab'' \<mapsto> JStr ''Backups'']"
proof -
  let ?w = "snd (alloc [''tab'' \<mapsto> JStr ''Backups''] empty_world)"
  let ?c = "CreateViewEvent ''Dashboard''"
  let ?cs = "[WithAdditionalProperties 0, WithConnectionInfo (JObj 0), Send]"
  have nf: "next_free ?w = 1" and h0: "heap ?w 0 = [''tab'' \<mapsto> JStr ''Backups'']"
    by (simp_all add: alloc_def empty_world_def)
  obtain ev w1 where c: "create example_host active_reporter ?c ?w = Returns (ev, w1)"
    by (cases "createViewEvent example_host active_reporter ''Dashboard'' ?w") simp
  note T = only_the_maps_of_the_event_are_written
             [where h = example_host and r = active_reporter and c = ?c and w = ?w]
  from T have "\<forall>ev w1. create example_host active_reporter ?c ?w = Returns (ev, w1) \<longrightarrow>
       (\<forall>b. b < next_free ?w \<and> b \<noteq> properties ev \<and> b \<noteq> measurements ev
             \<longrightarrow> heap w1 b = heap ?w b)
     \<and> (properties ev < next_free ?w
           \<longrightarrow> (\<exists>n m. ?c = CreateTelemetryEvent n (Some (properties ev)) m))
     \<and> (measurements ev < next_free ?w
           \<longrightarrow> (\<exists>n p. ?c = CreateTelemetryEvent n p (Some (measurements ev)))
               \<or> (\<exists>g. ?c = CreateMetricsEvent (measurements ev) g))
     \<and> (\<forall>n a m. ?c = CreateTelemetryEvent n (Some a) m \<longrightarrow> properties ev = a)
     \<and> (\<forall>n p a. ?c = CreateTelemetryEvent n p (Some a) \<longrightarrow> measurements ev = a)
     \<and> (\<forall>a g. ?c = CreateMetricsEvent a g \<longrightarrow> measurements ev = a)"
    by (rule conjunct1)
  note T1 = this [rule_format, OF c]
  have fr: "\<forall>b. b < next_free ?w \<and> b \<noteq> properties ev \<and> b \<noteq> measurements ev
             \<longrightarrow> heap w1 b = heap ?w b"
    using T1 by (elim conjE)
  have p: "properties ev < next_free ?w
           \<longrightarrow> (\<exists>n m. ?c = CreateTelemetryEvent n (Some (properties ev)) m)"
    using T1 by (elim conjE)
  have m: "measurements ev < next_free ?w
           \<longrightarrow> (\<exists>n p. ?c = CreateTelemetryEvent n p (Some (measurements ev)))
               \<or> (\<exists>g. ?c = CreateMetricsEvent (measurements ev) g)"
    using T1 by (elim conjE)
  have np: "properties ev \<noteq> 0" and nm: "measurements ev \<noteq> 0"
    using p m nf by auto
  have a: "heap w1 0 = [''tab'' \<mapsto> JStr ''Backups'']"
    using fr np nm nf h0 by simp
  obtain x w2 where e: "event_calls ev ?cs w1 = (x, w2)"
    by (cases "event_calls ev ?cs w1")
  note U = only_the_maps_of_the_event_are_written
             [where h = example_host and r = active_reporter and c = ?c and w = w1]
  from U have "\<forall>ev cs x w2. event_calls ev cs w1 = (x, w2) \<longrightarrow>
         (\<forall>b. b \<noteq> properties ev \<and> b \<noteq> measurements ev \<longrightarrow> heap w2 b = heap w1 b)"
    by (elim conjE)
  from this [rule_format, OF e]
  have "\<forall>b. b \<noteq> properties ev \<and> b \<noteq> measurements ev \<longrightarrow> heap w2 b = heap w1 b"
    by blast
  with np nm a have "heap w2 0 = [''tab'' \<mapsto> JStr ''Backups'']" by simp
  with c a e show ?thesis by auto
qed

text \<open>
  The claim as it was stated fails for the map passed to \<^verbatim>\<open>createMetricsEvent\<close>: the caller's
  map \<^verbatim>\<open>{latencyMs: 42}\<close> has gained the common measurement after the call.
\<close>

theorem createMetricsEvent_writes_into_the_map_of_the_caller:
  "heap (snd (alloc [''latencyMs'' \<mapsto> JNum (Fin 42)] empty_world)) 0 ''common.msftInternal''
     = None
   \<and> heap (snd (createMetricsEvent example_host active_reporter 0 (Some ''Dialog'')
                  (snd (alloc [''latencyMs'' \<mapsto> JNum (Fin 42)] empty_world)))) 0
        ''common.msftInternal''
     = Some (JNum (Fin 1))"
  by (simp add: createMetricsEvent_def TelemetryEventImpl_new_def alloc_def object_assign_def
        empty_world_def commonMeasurements_example_host map_add_def Let_def)

section \<open>The event of a TimedAction\<close>

lemma createTimedAction_shape:
  "createTimedAction r view action target source created w = (ta, w') \<Longrightarrow>
     ta_reporter ta = r \<and> ta_view ta = view \<and> ta_action ta = action
     \<and> ta_target ta = or_default target \<and> ta_source ta = or_default source
     \<and> ta_start ta = created
     \<and> ta_properties ta = next_free w \<and> ta_measures ta = Suc (next_free w)
     \<and> next_free w' = Suc (Suc (next_free w))"
  by (auto simp: createTimedAction_def TimedAction_new_def alloc_def Let_def)

lemma commonProperties_fixed_keys:
  "commonProperties h ''view'' = None" "commonProperties h ''action'' = None"
  "commonProperties h ''target'' = None" "commonProperties h ''source'' = None"
  by (simp_all add: commonProperties_def split: option.splits)

text \<open>What \<^verbatim>\<open>send\<close> of a TimedAction hands to the transport.\<close>

lemma TimedAction_send_calls:
  assumes "telemetryReporter (ta_reporter ta) = Some t"
    and "ta_properties ta < next_free w" and "ta_measures ta < next_free w"
  shows "transport_calls (TimedAction_send h ta now w)
         = transport_calls w
           @ [(''action'',
               ([''view'' \<mapsto> JStr (ta_view ta), ''action'' \<mapsto> JStr (ta_action ta),
                 ''target'' \<mapsto> JStr (ta_source ta), ''source'' \<mapsto> JStr (ta_target ta)]
                  ++ commonProperties h) ++ heap w (ta_properties ta),
               ((if now = ta_start ta then Map.empty
                 else [''durationInMs'' \<mapsto> JNum (Fin (real_of_int (now - ta_start ta)))])
                  ++ commonMeasurements h) ++ heap w (ta_measures ta))]"
proof -
  obtain ev w1 where
    c: "createActionEvent h (ta_reporter ta) (ta_view ta) (ta_action ta) (Some (ta_source ta))
          (Some (ta_target ta)) (Some (Fin (real_of_int (now - ta_start ta)))) w = (ev, w1)"
    by (cases "createActionEvent h (ta_reporter ta) (ta_view ta) (ta_action ta)
          (Some (ta_source ta)) (Some (ta_target ta))
          (Some (Fin (real_of_int (now - ta_start ta)))) w")
  note sh = createActionEvent_shape [OF c]
  let ?w2 = "object_assign (properties ev) (heap w1 (ta_properties ta)) w1"
  let ?w3 = "object_assign (measurements ev) (heap ?w2 (ta_measures ta)) ?w2"
  have s: "TimedAction_send h ta now w = send ev ?w3"
    using c
    by (simp add: TimedAction_send_def withAdditionalProperties_def
          withAdditionalMeasurements_def Let_def)
  have r: "ev_reporter ev = Some t" using sh assms(1) by simp
  have p: "heap ?w3 (properties ev)
           = ([''view'' \<mapsto> JStr (ta_view ta), ''action'' \<mapsto> JStr (ta_action ta),
               ''target'' \<mapsto> JStr (ta_source ta), ''source'' \<mapsto> JStr (ta_target ta)]
                ++ commonProperties h) ++ heap w (ta_properties ta)"
    using sh assms(2,3) by (simp add: heap_object_assign or_default_def)
  have m: "heap ?w3 (measurements ev)
           = ((if now = ta_start ta then Map.empty
               else [''durationInMs'' \<mapsto> JNum (Fin (real_of_int (now - ta_start ta)))])
                ++ commonMeasurements h) ++ heap w (ta_measures ta)"
    using sh assms(2,3) by (simp add: heap_object_assign)
  have tc: "transport_calls ?w3 = transport_calls w"
    using sh by (simp add: transport_calls_object_assign)
  have n: "eventName ev = ''action''" using sh by simp
  have "transport_calls (TimedAction_send h ta now w) = transport_calls (send ev ?w3)"
    by (simp only: s)
  also have "\<dots> = transport_calls ?w3
                   @ [(eventName ev, heap ?w3 (properties ev), heap ?w3 (measurements ev))]"
    using send_active [OF r] by blast
  finally show ?thesis unfolding p m tc n .
qed

text \<open>
  Sent in the millisecond of its construction, a TimedAction has a duration of 0, which
  \<^verbatim>\<open>createActionEvent\<close> takes for a missing one: the event has no measurement
  \<^verbatim>\<open>durationInMs\<close>.
\<close>

lemma TimedAction_sent_at_once_has_no_duration:
  "last_sent_name
     (TimedAction_send example_host
        (fst (createTimedAction active_reporter ''Dashboard'' ''Backup'' (Some ''db1'')
                (Some ''menu'') 1000 empty_world))
        1000
        (snd (createTimedAction active_reporter ''Dashboard'' ''Backup'' (Some ''db1'')
                (Some ''menu'') 1000 empty_world))) = Some ''action''
   \<and> last_sent_measurement
     (TimedAction_send example_host
        (fst (createTimedAction active_reporter ''Dashboard'' ''Backup'' (Some ''db1'')
                (Some ''menu'') 1000 empty_world))
        1000
        (snd (createTimedAction active_reporter ''Dashboard'' ''Backup'' (Some ''db1'')
                (Some ''menu'') 1000 empty_world))) ''durationInMs'' = None"
proof -
  obtain ta w where
    c: "createTimedAction active_reporter ''Dashboard'' ''Backup'' (Some ''db1'') (Some ''menu'')
          1000 empty_world = (ta, w)"
    by (cases "createTimedAction active_reporter ''Dashboard'' ''Backup'' (Some ''db1'')
          (Some ''menu'') 1000 empty_world")
  note sh = createTimedAction_shape [OF c]
  have t: "telemetryReporter (ta_reporter ta) = Some accepting_transport"
    using sh by (simp add: active_reporter_def)
  have e: "heap w (ta_measures ta) = Map.empty"
    using c
    by (auto simp: createTimedAction_def TimedAction_new_def alloc_def empty_world_def Let_def)
  have a: "ta_properties ta < next_free w" "ta_measures ta < next_free w"
    using sh by simp_all
  show ?thesis
    using TimedAction_send_calls [OF t a, of example_host 1000] sh e c
    by (simp add: last_sent_name_def last_sent_measurement_def last_call_def map_add_def
          commonMeasurements_duration)
qed

text \<open>
  Claim C5, at every TimedAction of a reporter that has a transport. \<^verbatim>\<open>send\<close> hands the
  transport exactly one event, named \<^verbatim>\<open>action\<close>, and passes \<^verbatim>\<open>this.source\<close> where
  \<^verbatim>\<open>createActionEvent\<close> expects the target and \<^verbatim>\<open>this.target\<close> where it expects the source.
  So, unless an accumulated property has the same key, the event's property \<^verbatim>\<open>target\<close> is
  the source given to \<^verbatim>\<open>createTimedAction\<close> and its property \<^verbatim>\<open>source\<close> is the target given
  to it; \<^verbatim>\<open>view\<close> and \<^verbatim>\<open>action\<close> are as given.
\<close>

theorem TimedAction_send_exchanges_target_and_source:
  assumes "createTimedAction r view action target source created before = (ta, after)"
    and "telemetryReporter r = Some t"
    and "next_free after \<le> next_free w"
    and "heap w (ta_properties ta) ''target'' = None"
    and "heap w (ta_properties ta) ''source'' = None"
  shows "\<exists>ps ms.
           transport_calls (TimedAction_send h ta now w) = transport_calls w @ [(''action'', ps, ms)]
         \<and> ps ''target'' = Some (JStr (or_default source))
         \<and> ps ''source'' = Some (JStr (or_default target))"
proof -
  note sh = createTimedAction_shape [OF assms(1)]
  have r: "telemetryReporter (ta_reporter ta) = Some t" using sh assms(2) by simp
  have a: "ta_properties ta < next_free w" "ta_measures ta < next_free w"
    using sh assms(3) by simp_all
  let ?ps = "([''view'' \<mapsto> JStr (ta_view ta), ''action'' \<mapsto> JStr (ta_action ta),
               ''target'' \<mapsto> JStr (ta_source ta), ''source'' \<mapsto> JStr (ta_target ta)]
                ++ commonProperties h) ++ heap w (ta_properties ta)"
  let ?ms = "((if now = ta_start ta then Map.empty
               else [''durationInMs'' \<mapsto> JNum (Fin (real_of_int (now - ta_start ta)))])
                ++ commonMeasurements h) ++ heap w (ta_measures ta)"
  have 1: "transport_calls (TimedAction_send h ta now w)
           = transport_calls w @ [(''action'', ?ps, ?ms)]"
    by (rule TimedAction_send_calls [OF r a])
  have 2: "?ps ''target'' = Some (JStr (or_default source))"
    using sh assms(4) by (simp add: map_add_def commonProperties_fixed_keys)
  have 3: "?ps ''source'' = Some (JStr (or_default target))"
    using sh assms(5) by (simp add: map_add_def commonProperties_fixed_keys)
  show ?thesis
    by (rule exI [of _ ?ps], rule exI [of _ ?ms]) (intro conjI 1 2 3)
qed

theorem TimedAction_send_exchanges_target_and_source_witness:
  "last_sent_name
     (TimedAction_send example_host
        (fst (createTimedAction active_reporter ''Dashboard'' ''Backup'' (Some ''db1'')
                (Some ''menu'') 1000 empty_world))
        1500
        (snd (createTimedAction active_reporter ''Dashboard'' ''Backup'' (Some ''db1'')
                (Some ''menu'') 1000 empty_world))) = Some ''action''
   \<and> last_sent_property
     (TimedAction_send example_host
        (fst (createTimedAction active_reporter ''Dashboard'' ''Backup'' (Some ''db1'')
                (Some ''menu'') 1000 empty_world))
        1500
        (snd (createTimedAction active_reporter ''Dashboard'' ''Backup'' (Some ''db1'')
                (Some ''menu'') 1000 empty_world))) ''target'' = Some (JStr ''menu'')
   \<and> last_sent_property
     (TimedAction_send example_host
        (fst (createTimedAction active_reporter ''Dashboard'' ''Backup'' (Some ''db1'')
                (Some ''menu'') 1000 empty_world))
        1500
        (snd (createTimedAction active_reporter ''Dashboard'' ''Backup'' (Some ''db1'')
                (Some ''menu'') 1000 empty_world))) ''source'' = Some (JStr ''db1'')"
proof -
  obtain ta w where
    c: "createTimedAction active_reporter ''Dashboard'' ''Backup'' (Some ''db1'') (Some ''menu'')
          1000 empty_world = (ta, w)"
    by (cases "createTimedAction active_reporter ''Dashboard'' ''Backup'' (Some ''db1'')
          (Some ''menu'') 1000 empty_world")
  have t: "telemetryReporter active_reporter = Some accepting_transport"
    by (simp add: active_reporter_def)
  have e: "heap w (ta_properties ta) = Map.empty"
    using c
    by (auto simp: createTimedAction_def TimedAction_new_def alloc_def empty_world_def Let_def)
  have e1: "heap w (ta_properties ta) ''target'' = None" using e by simp
  have e2: "heap w (ta_properties ta) ''source'' = None" using e by simp
  from TimedAction_send_exchanges_target_and_source
         [where h = example_host and now = 1500, OF c t order_refl e1 e2]
  obtain ps ms where
    s: "transport_calls (TimedAction_send example_host ta 1500 w)
          = transport_calls w @ [(''action'', ps, ms)]"
    and tg: "ps ''target'' = Some (JStr (or_default (Some ''menu'')))"
    and sr: "ps ''source'' = Some (JStr (or_default (Some ''db1'')))"
    by (elim exE conjE) (rule that, assumption+)
  have "last_call (TimedAction_send example_host ta 1500 w) = Some (''action'', ps, ms)"
    using s by (simp add: last_call_def)
  then show ?thesis
    using c tg sr
    by (simp add: last_sent_name_def last_sent_property_def or_default_def)
qed

end
